theory Spec2Isabelle
  imports Main
begin

section \<open>Data model of the validation engine (pkg/engine/validation.go)\<close>

text \<open>
  Untyped JSON documents (Go \<open>interface{}\<close> holding JSON-like values). The Go \<open>nil\<close>
  interface is \<open>JNull\<close>, a \<open>map[string]interface{}\<close> is \<open>JObject\<close>, a
  \<open>[]interface{}\<close> is \<open>JArray\<close>. The engine never computes with numbers in this
  file; they are carried as integers.
\<close>

datatype json =
    JNull
  | JBool bool
  | JNumber int
  | JString string
  | JArray "json list"
  | JObject "(string \<times> json) list"

text \<open>A Go \<open>error\<close> value is represented by the text of its \<open>Error()\<close>.\<close>

type_synonym err = string

text \<open>A run-time panic of the Go program.\<close>

datatype panic = NilPointerDereference | TypeAssertionFailed

text \<open>\<open>unstructured.Unstructured\<close>: one field, the object map, which may be \<open>nil\<close>.\<close>

record Unstructured =
  Object :: "(string \<times> json) list option"

definition emptyUnstructured :: Unstructured where
  "emptyUnstructured = \<lparr>Object = None\<rparr>"

text \<open>
  The accessors of \<open>Unstructured\<close> read nested string fields of the object map and
  give the empty string when the field is absent or not a string.
\<close>

fun nestedString :: "(string \<times> json) list option \<Rightarrow> string list \<Rightarrow> string" where
  "nestedString None ks = []"
| "nestedString (Some obj) [] = []"
| "nestedString (Some obj) [k] = (case map_of obj k of Some (JString s) \<Rightarrow> s | _ \<Rightarrow> [])"
| "nestedString (Some obj) (k # ks) =
     (case map_of obj k of Some (JObject sub) \<Rightarrow> nestedString (Some sub) ks | _ \<Rightarrow> [])"

definition GetKind :: "Unstructured \<Rightarrow> string" where
  "GetKind u = nestedString (Object u) [''kind'']"

definition GetNamespace :: "Unstructured \<Rightarrow> string" where
  "GetNamespace u = nestedString (Object u) [''metadata'', ''namespace'']"

definition GetName :: "Unstructured \<Rightarrow> string" where
  "GetName u = nestedString (Object u) [''metadata'', ''name'']"

definition GetAPIVersion :: "Unstructured \<Rightarrow> string" where
  "GetAPIVersion u = nestedString (Object u) [''apiVersion'']"

datatype RuleStatus =
    RuleStatusPass
  | RuleStatusFail
  | RuleStatusWarn
  | RuleStatusError
  | RuleStatusSkip

datatype RuleType = Mutation | Validation | Generation | ImageVerify

record PodSecurity =
  Level :: string
  Version :: string

record PodSecurityChecks =
  ChecksLevel :: string
  ChecksVersion :: string
  Checks :: "string list"

record RuleResponse =
  Name :: string
  Type :: "RuleType option"
  Message :: string
  Status :: RuleStatus
  PodSecurityChecksOf :: "PodSecurityChecks option"

text \<open>\<open>kyvernov1.Deny\<close> has one field, the raw any/all condition tree.\<close>

record Deny =
  RawAnyAllConditions :: json

text \<open>
  \<open>kyvernov1.ForEachValidation\<close>. The nested \<open>foreach\<close> is stored by the source as
  raw JSON and deserialised by \<open>api.DeserializeJSONArray\<close> in \<open>newForEachValidator\<close>;
  the field holds the outcome of that deserialisation: an error, a \<open>nil\<close> slice
  (\<open>Inr None\<close>) or a slice of blocks.
\<close>

datatype ForEachValidation = ForEachValidation
  (List: string)
  (ElementScope: "bool option")
  (Context: "json list")
  (AnyAllConditions: json)
  (Pattern: json)
  (AnyPattern: json)
  (ForEachDeny: "Deny option")
  (Nested: "err + ForEachValidation list option")

record Validation =
  ValidationMessage :: string
  RawPattern :: json
  RawAnyPattern :: json
  ValidationDeny :: "Deny option"
  ValidationPodSecurity :: "PodSecurity option"
  ValidationForEach :: "ForEachValidation list option"

record Rule =
  RuleName :: string
  RuleContext :: "json list"
  RuleAnyAllConditions :: json
  RuleValidation :: Validation

datatype ApplyRulesType = ApplyAll | ApplyOne

record Policy =
  PolicyName :: string
  PolicyNamespace :: string
  IsNamespaced :: bool
  ApplyRules :: ApplyRulesType
  ValidationFailureAction :: string
  ValidationFailureActionOverrides :: "json list"
  SpecRules :: "Rule list"

record PolicyException =
  ExceptionName :: string
  ExceptionNamespace :: string
  ExceptionMatch :: json

text \<open>
  \<open>engineapi.PolicyContext\<close>. The JSON context it points to is shared by all copies
  made with \<open>Copy()\<close>; it is threaded separately as a state of type \<open>'j\<close>.
\<close>

record PolicyContext =
  PolicyOf :: Policy
  NewResource :: Unstructured
  OldResource :: Unstructured
  Element :: Unstructured
  AdmissionInfo :: json
  NamespaceLabels :: "(string \<times> string) list"

record EngineResponse =
  PatchedResource :: Unstructured
  ResponsePolicy :: "Policy option"
  ResponsePolicyName :: string
  ResponsePolicyNamespace :: string
  ResourceName :: string
  ResourceNamespace :: string
  ResourceKind :: string
  ResourceAPIVersion :: string
  ResponseValidationFailureAction :: string
  ResponseValidationFailureActionOverrides :: "json list"
  Rules :: "RuleResponse list"
  RulesAppliedCount :: int
  RulesErrorCount :: int
  ResponseNamespaceLabels :: "(string \<times> string) list"

text \<open>The result of \<open>validate.MatchPattern\<close>: \<open>nil\<close>, a \<open>*PatternError\<close>, or another error.\<close>

datatype matchError =
    PatternError (Err: string) (Path: string) (Skip: bool)
  | OtherError string

fun errorText :: "matchError \<Rightarrow> string" where
  "errorText (PatternError e p s) = e"
| "errorText (OtherError e) = e"

section \<open>External collaborators\<close>

text \<open>
  Functions of other packages that this file calls. They are parameters of the model.
  Those that read or change the JSON context take the context state \<open>'j\<close>; those that
  change it return the new state.
\<close>

text \<open>
  The typed Kubernetes structs a resource is unmarshalled into by \<open>getSpec\<close>.
  \<open>Unmarshal\<close> below stands for \<open>MarshalJSON\<close> followed by \<open>json.Unmarshal\<close> into
  the struct; it gives the error of either, if any.
\<close>

datatype TargetType = AsDeployment | AsCronJob | AsPod

record 'j externals =
  Checkpoint :: "'j \<Rightarrow> 'j"
  Restore :: "'j \<Rightarrow> 'j"
  Reset :: "'j \<Rightarrow> 'j"
  AddElement :: "json \<Rightarrow> nat \<Rightarrow> nat \<Rightarrow> 'j \<Rightarrow> err option \<times> 'j"
  LoadContext :: "json list \<Rightarrow> PolicyContext \<Rightarrow> string \<Rightarrow> 'j \<Rightarrow> err option \<times> 'j"
  checkPreconditions :: "PolicyContext \<Rightarrow> json \<Rightarrow> 'j \<Rightarrow> err + bool"
  SubstituteAll :: "'j \<Rightarrow> json \<Rightarrow> err + json"
  SubstituteAllDeny :: "'j \<Rightarrow> Deny \<Rightarrow> err + Deny"
  TransformConditions :: "json \<Rightarrow> err + json"
  EvaluateConditions :: "'j \<Rightarrow> json \<Rightarrow> bool"
  evaluateList :: "string \<Rightarrow> 'j \<Rightarrow> err + json list"
  MatchPattern :: "(string \<times> json) list option \<Rightarrow> json \<Rightarrow> matchError option"
  DocumentToUntyped :: "json \<Rightarrow> err + json"
  ToMap :: "json \<Rightarrow> err + json"
  Unmarshal :: "TargetType \<Rightarrow> Unstructured \<Rightarrow> err option"
  EvaluatePod :: "PodSecurity \<Rightarrow> json \<times> json \<Rightarrow> err + (bool \<times> string list)"
  FormatValue :: "json \<Rightarrow> string"
  FormatTypeOf :: "json \<Rightarrow> string"
  FormatChecksPrint :: "string list \<Rightarrow> string"
  ComputeRules :: "Policy \<Rightarrow> Rule list"
  HasValidate :: "Rule \<Rightarrow> bool"
  HasImagesValidationChecks :: "Rule \<Rightarrow> bool"
  HasYAMLSignatureVerify :: "Rule \<Rightarrow> bool"
  MatchesResourceDescription :: "Unstructured \<Rightarrow> Rule \<Rightarrow> PolicyContext \<Rightarrow> err option"
  FindExceptions :: "PolicyContext \<Rightarrow> string \<Rightarrow> err + PolicyException list"
  CheckMatchesResources :: "Unstructured \<Rightarrow> json \<Rightarrow> PolicyContext \<Rightarrow> err option"
  MetaNamespaceKeyFunc :: "PolicyException \<Rightarrow> err + string"
  processImageValidationRule :: "PolicyContext \<Rightarrow> Rule \<Rightarrow> 'j \<Rightarrow> RuleResponse option \<times> 'j"
  processYAMLValidationRule :: "PolicyContext \<Rightarrow> Rule \<Rightarrow> 'j \<Rightarrow> RuleResponse option \<times> 'j"

section \<open>Helpers\<close>

text \<open>
  Modelled from the spec: \<open>ruleResponse\<close> and \<open>ruleError\<close> live in another file of
  package \<open>engine\<close>. A rule response carries the rule name, the kind tag, the message
  and the status; \<open>ruleError\<close> reports status Error with the error appended to the
  message.
\<close>

definition ruleResponse :: "Rule \<Rightarrow> RuleType \<Rightarrow> string \<Rightarrow> RuleStatus \<Rightarrow> RuleResponse" where
  "ruleResponse rule ruleType msg status =
     \<lparr>Name = RuleName rule, Type = Some ruleType, Message = msg, Status = status,
      PodSecurityChecksOf = None\<rparr>"

definition ruleError :: "Rule \<Rightarrow> RuleType \<Rightarrow> string \<Rightarrow> err \<Rightarrow> RuleResponse" where
  "ruleError rule ruleType msg e =
     ruleResponse rule ruleType (msg @ '': '' @ e) RuleStatusError"

text \<open>\<open>strings.Join\<close>, \<open>strings.HasSuffix\<close> and the \<open>%d\<close> verb of \<open>fmt.Sprintf\<close>.\<close>

fun Join :: "string list \<Rightarrow> string \<Rightarrow> string" where
  "Join [] sep = []"
| "Join [x] sep = x"
| "Join (x # xs) sep = x @ sep @ Join xs sep"

definition HasSuffix :: "string \<Rightarrow> string \<Rightarrow> bool" where
  "HasSuffix s suffix =
     (length suffix \<le> length s \<and> drop (length s - length suffix) s = suffix)"

fun decimal :: "nat \<Rightarrow> string" where
  "decimal n =
     (if n < 10 then [char_of (48 + n)]
      else decimal (n div 10) @ [char_of (48 + n mod 10)])"

declare decimal.simps [simp del]

definition quote :: string where
  "quote = [CHR 0x27]"

section \<open>The validator\<close>

record validator =
  rule :: Rule
  policyContext :: PolicyContext
  contextEntries :: "json list"
  anyAllConditions :: json
  pattern :: json
  anyPattern :: json
  deny :: "Deny option"
  podSecurity :: "PodSecurity option"
  forEach :: "ForEachValidation list option"
  nesting :: nat

text \<open>
  The pattern, the \<open>anyPattern\<close> and the conditions of a rule are raw JSON that
  the accessors of the rule deserialise; the fields of the model hold the JSON values.
\<close>

definition newValidator :: "PolicyContext \<Rightarrow> Rule \<Rightarrow> validator" where
  "newValidator ctx r =
     \<lparr>rule = r,
      policyContext = ctx,
      contextEntries = RuleContext r,
      anyAllConditions = RuleAnyAllConditions r,
      pattern = RawPattern (RuleValidation r),
      anyPattern = RawAnyPattern (RuleValidation r),
      deny = ValidationDeny (RuleValidation r),
      podSecurity = ValidationPodSecurity (RuleValidation r),
      forEach = ValidationForEach (RuleValidation r),
      nesting = 0\<rparr>"

definition newForEachValidator ::
  "'j externals \<Rightarrow> ForEachValidation \<Rightarrow> nat \<Rightarrow> Rule \<Rightarrow> PolicyContext \<Rightarrow> err + validator" where
  "newForEachValidator ext foreach nest r ctx =
     (case ToMap ext (AnyAllConditions foreach) of
        Inl e \<Rightarrow>
          Inl (''failed to convert ruleCopy.Validation.ForEachValidation.AnyAllConditions: '' @ e)
      | Inr conds \<Rightarrow>
          (case Nested foreach of
             Inl e \<Rightarrow>
               Inl (''failed to convert ruleCopy.Validation.ForEachValidation.AnyAllConditions: '' @ e)
           | Inr nestedForEach \<Rightarrow>
               Inr \<lparr>rule = r,
                    policyContext = ctx,
                    contextEntries = Context foreach,
                    anyAllConditions = conds,
                    pattern = Pattern foreach,
                    anyPattern = AnyPattern foreach,
                    deny = ForEachDeny foreach,
                    podSecurity = None,
                    forEach = nestedForEach,
                    nesting = nest\<rparr>))"

subsection \<open>Messages\<close>

definition buildErrorMessage ::
  "'j externals \<Rightarrow> validator \<Rightarrow> 'j \<Rightarrow> string \<Rightarrow> string \<Rightarrow> panic + string" where
  "buildErrorMessage ext v j e path =
     (if ValidationMessage (RuleValidation (rule v)) = [] then
        (if path \<noteq> [] then
           Inr (''validation error: rule '' @ RuleName (rule v) @ '' failed at path '' @ path)
         else
           Inr (''validation error: rule '' @ RuleName (rule v) @ '' execution error: '' @ e))
      else
        (case SubstituteAll ext j (JString (ValidationMessage (RuleValidation (rule v)))) of
           Inl sErr \<Rightarrow>
             Inr (''validation error: variables substitution error in rule '' @ RuleName (rule v)
                  @ '' execution error: '' @ e)
         | Inr (JString msg0) \<Rightarrow>
             (let msg = (if \<not> HasSuffix msg0 ''.'' then msg0 @ ''.'' else msg0) in
              if path \<noteq> [] then
                Inr (''validation error: '' @ msg @ '' rule '' @ RuleName (rule v)
                     @ '' failed at path '' @ path)
              else
                Inr (''validation error: '' @ msg @ '' rule '' @ RuleName (rule v)
                     @ '' execution error: '' @ e))
         | Inr _ \<Rightarrow> Inl TypeAssertionFailed))"

definition buildAnyPatternErrorMessage :: "Rule \<Rightarrow> string list \<Rightarrow> string" where
  "buildAnyPatternErrorMessage r errors =
     (let errStr = Join errors '' '' in
      if ValidationMessage (RuleValidation r) = [] then
        ''validation error: '' @ errStr
      else if HasSuffix (ValidationMessage (RuleValidation r)) ''.'' then
        ''validation error: '' @ ValidationMessage (RuleValidation r) @ '' '' @ errStr
      else
        ''validation error: '' @ ValidationMessage (RuleValidation r) @ ''. '' @ errStr)"

definition deserializeAnyPattern :: "json \<Rightarrow> err + json list" where
  "deserializeAnyPattern ap =
     (case ap of
        JNull \<Rightarrow> Inr []
      | JArray res \<Rightarrow> Inr res
      | _ \<Rightarrow> Inl ''json: cannot unmarshal value into Go value of type []interface {}'')"

subsection \<open>Pattern and anyPattern\<close>

text \<open>
  The loop over the entries of \<open>anyPattern\<close>: the result is the index of the first
  entry that matches, or the two lists of error texts collected from all entries.
\<close>

fun anyPatternLoop ::
  "'j externals \<Rightarrow> validator \<Rightarrow> (string \<times> json) list option \<Rightarrow> nat \<Rightarrow> json list
     \<Rightarrow> string list \<Rightarrow> string list \<Rightarrow> nat + (string list \<times> string list)" where
  "anyPatternLoop ext v obj idx [] failedErrs skippedErrs = Inr (failedErrs, skippedErrs)"
| "anyPatternLoop ext v obj idx (p # ps) failedErrs skippedErrs =
     (case MatchPattern ext obj p of
        None \<Rightarrow> Inl idx
      | Some (PatternError e path skip) \<Rightarrow>
          (if skip then
             anyPatternLoop ext v obj (Suc idx) ps failedErrs
               (skippedErrs @ [''rule '' @ RuleName (rule v) @ ''['' @ decimal idx
                                @ ''] skipped: '' @ e])
           else if path = [] then
             anyPatternLoop ext v obj (Suc idx) ps
               (failedErrs @ [''rule '' @ RuleName (rule v) @ ''['' @ decimal idx
                               @ ''] failed: '' @ e])
               skippedErrs
           else
             anyPatternLoop ext v obj (Suc idx) ps
               (failedErrs @ [''rule '' @ RuleName (rule v) @ ''['' @ decimal idx
                               @ ''] failed at path '' @ path])
               skippedErrs)
      | Some (OtherError e) \<Rightarrow>
          anyPatternLoop ext v obj (Suc idx) ps failedErrs skippedErrs)"

definition validatePatterns ::
  "'j externals \<Rightarrow> validator \<Rightarrow> 'j \<Rightarrow> Unstructured \<Rightarrow> panic + RuleResponse" where
  "validatePatterns ext v j resource =
     (if pattern v \<noteq> JNull then
        (case MatchPattern ext (Object resource) (pattern v) of
           Some (PatternError e path skip) \<Rightarrow>
             (if skip then
                Inr (ruleResponse (rule v) Validation e RuleStatusSkip)
              else if path = [] then
                (case buildErrorMessage ext v j e [] of
                   Inl p \<Rightarrow> Inl p
                 | Inr msg \<Rightarrow> Inr (ruleResponse (rule v) Validation msg RuleStatusError))
              else
                (case buildErrorMessage ext v j e path of
                   Inl p \<Rightarrow> Inl p
                 | Inr msg \<Rightarrow> Inr (ruleResponse (rule v) Validation msg RuleStatusFail)))
         | Some (OtherError e) \<Rightarrow> Inl NilPointerDereference
         | None \<Rightarrow>
             Inr (ruleResponse (rule v) Validation
                    (''validation rule '' @ quote @ RuleName (rule v) @ quote @ '' passed.'')
                    RuleStatusPass))
      else if anyPattern v \<noteq> JNull then
        (case deserializeAnyPattern (anyPattern v) of
           Inl e \<Rightarrow>
             Inr (ruleResponse (rule v) Validation
                    (''failed to deserialize anyPattern, expected type array: '' @ e)
                    RuleStatusError)
         | Inr anyPatterns \<Rightarrow>
             (case anyPatternLoop ext v (Object resource) 0 anyPatterns [] [] of
                Inl idx \<Rightarrow>
                  Inr (ruleResponse (rule v) Validation
                         (''validation rule '' @ quote @ RuleName (rule v) @ quote
                          @ '' anyPattern['' @ decimal idx @ ''] passed.'')
                         RuleStatusPass)
              | Inr (failedErrs, skippedErrs) \<Rightarrow>
                  (if length skippedErrs > 0 \<and> length failedErrs = 0 then
                     Inr (ruleResponse (rule v) Validation (Join skippedErrs '' '')
                            RuleStatusSkip)
                   else if length failedErrs > 0 then
                     Inr (ruleResponse (rule v) Validation
                            (buildAnyPatternErrorMessage (rule v) failedErrs) RuleStatusFail)
                   else
                     Inr (ruleResponse (rule v) Validation
                            (ValidationMessage (RuleValidation (rule v))) RuleStatusPass))))
      else
        Inr (ruleResponse (rule v) Validation
               (ValidationMessage (RuleValidation (rule v))) RuleStatusPass))"

subsection \<open>Deny\<close>

definition getDenyMessage :: "'j externals \<Rightarrow> validator \<Rightarrow> 'j \<Rightarrow> bool \<Rightarrow> string" where
  "getDenyMessage ext v j d =
     (if \<not> d then ''validation rule '' @ quote @ RuleName (rule v) @ quote @ '' passed.''
      else
        (let msg = ValidationMessage (RuleValidation (rule v)) in
         if msg = [] then ''validation error: rule '' @ RuleName (rule v) @ '' failed''
         else
           (case SubstituteAll ext j (JString msg) of
              Inl e \<Rightarrow> msg
            | Inr (JString typed) \<Rightarrow> typed
            | Inr _ \<Rightarrow>
                ''the produced message didn'' @ quote
                @ ''t resolve to a string, check your policy definition.'')))"

text \<open>
  \<open>substituteDeny\<close> substitutes in the typed \<open>*Deny\<close> and stores the result in the
  validator; \<open>SubstituteAllDeny\<close> is \<open>SubstituteAll\<close> at that type.
\<close>

definition substituteDeny :: "'j externals \<Rightarrow> validator \<Rightarrow> 'j \<Rightarrow> err + validator" where
  "substituteDeny ext v j =
     (case deny v of
        None \<Rightarrow> Inr v
      | Some d \<Rightarrow>
          (case SubstituteAllDeny ext j d of
             Inl e \<Rightarrow> Inl e
           | Inr i \<Rightarrow> Inr (v\<lparr>deny := Some i\<rparr>)))"

definition validateDeny :: "'j externals \<Rightarrow> validator \<Rightarrow> 'j \<Rightarrow> panic + RuleResponse" where
  "validateDeny ext v j =
     (case deny v of
        None \<Rightarrow> Inl NilPointerDereference
      | Some d \<Rightarrow>
          (case SubstituteAll ext j (RawAnyAllConditions d) of
             Inl e \<Rightarrow>
               Inr (ruleError (rule v) Validation
                      ''failed to substitute variables in deny conditions'' e)
           | Inr anyAllCond \<Rightarrow>
               (case substituteDeny ext v j of
                  Inl e \<Rightarrow>
                    Inr (ruleError (rule v) Validation
                           ''failed to substitute variables in rule'' e)
                | Inr v' \<Rightarrow>
                    (case TransformConditions ext anyAllCond of
                       Inl e \<Rightarrow>
                         Inr (ruleError (rule v') Validation ''invalid deny conditions'' e)
                     | Inr denyConditions \<Rightarrow>
                         (let d' = EvaluateConditions ext j denyConditions in
                          if d' then
                            Inr (ruleResponse (rule v') Validation
                                   (getDenyMessage ext v' j d') RuleStatusFail)
                          else
                            Inr (ruleResponse (rule v') Validation
                                   (getDenyMessage ext v' j d') RuleStatusPass))))))"

subsection \<open>Pod security\<close>

fun lookupPath :: "(string \<times> json) list option \<Rightarrow> string list \<Rightarrow> json" where
  "lookupPath None ks = JNull"
| "lookupPath (Some obj) [] = JObject obj"
| "lookupPath (Some obj) [k] = (case map_of obj k of Some x \<Rightarrow> x | None \<Rightarrow> JNull)"
| "lookupPath (Some obj) (k # ks) =
     (case map_of obj k of Some (JObject sub) \<Rightarrow> lookupPath (Some sub) ks | _ \<Rightarrow> JNull)"

text \<open>
  \<open>getSpec\<close> returns two pointers and an error. A pointer into the unmarshalled struct
  is \<open>Some\<close> of the JSON found at the field's path (\<open>JNull\<close> when the document leaves
  the field out, the struct's zero value); \<open>None\<close> is the \<open>nil\<close> pointer.
\<close>

definition isEmptyUnstructured :: "Unstructured \<Rightarrow> bool" where
  "isEmptyUnstructured u = (Object u = None)"

definition isDeleteRequest :: "PolicyContext \<Rightarrow> bool" where
  "isDeleteRequest ctx = isEmptyUnstructured (NewResource ctx)"

definition getSpec ::
  "'j externals \<Rightarrow> validator \<Rightarrow> json option \<times> json option \<times> err option" where
  "getSpec ext v =
     (let newResource = NewResource (policyContext v);
          kind = GetKind newResource in
      if kind = ''DaemonSet'' \<or> kind = ''Deployment'' \<or> kind = ''Job''
         \<or> kind = ''StatefulSet'' \<or> kind = ''ReplicaSet''
         \<or> kind = ''ReplicationController'' then
        (case Unmarshal ext AsDeployment newResource of
           Some e \<Rightarrow> (None, None, Some e)
         | None \<Rightarrow>
             (Some (lookupPath (Object newResource) [''spec'', ''template'', ''spec'']),
              Some (lookupPath (Object newResource) [''spec'', ''template'', ''metadata'']),
              None))
      else if kind = ''CronJob'' then
        (case Unmarshal ext AsCronJob newResource of
           Some e \<Rightarrow> (None, None, Some e)
         | None \<Rightarrow>
             (Some (lookupPath (Object newResource)
                      [''spec'', ''jobTemplate'', ''spec'', ''template'', ''spec'']),
              Some (lookupPath (Object newResource) [''spec'', ''jobTemplate'', ''metadata'']),
              None))
      else if kind = ''Pod'' then
        (case Unmarshal ext AsPod newResource of
           Some e \<Rightarrow> (None, None, Some e)
         | None \<Rightarrow>
             (Some (lookupPath (Object newResource) [''spec'']),
              Some (lookupPath (Object newResource) [''metadata'']),
              None))
      else (None, None, None))"

definition validatePodSecurity :: "'j externals \<Rightarrow> validator \<Rightarrow> panic + RuleResponse" where
  "validatePodSecurity ext v =
     (case getSpec ext v of
        (podSpec, metadata, Some e) \<Rightarrow>
          Inr (ruleError (rule v) Validation ''Error while getting new resource'' e)
      | (None, metadata, None) \<Rightarrow> Inl NilPointerDereference
      | (Some spec, None, None) \<Rightarrow> Inl NilPointerDereference
      | (Some spec, Some meta, None) \<Rightarrow>
          (case podSecurity v of
             None \<Rightarrow> Inl NilPointerDereference
           | Some ps \<Rightarrow>
               (case EvaluatePod ext ps (spec, meta) of
                  Inl e \<Rightarrow>
                    Inr (ruleError (rule v) Validation
                           ''failed to parse pod security api version'' e)
                | Inr (allowed, pssChecks) \<Rightarrow>
                    (let podSecurityChecks =
                           \<lparr>ChecksLevel = Level ps, ChecksVersion = Version ps,
                            Checks = pssChecks\<rparr> in
                     if allowed then
                       Inr ((ruleResponse (rule v) Validation
                               (''Validation rule '' @ quote @ RuleName (rule v) @ quote
                                @ '' passed.'')
                               RuleStatusPass)
                            \<lparr>PodSecurityChecksOf := Some podSecurityChecks\<rparr>)
                     else
                       Inr ((ruleResponse (rule v) Validation
                               (''Validation rule '' @ quote @ RuleName (rule v) @ quote
                                @ '' failed. It violates PodSecurity \"'' @ Level ps @ '':''
                                @ Version ps @ ''\": '' @ FormatChecksPrint ext pssChecks)
                               RuleStatusFail)
                            \<lparr>PodSecurityChecksOf := Some podSecurityChecks\<rparr>)))))"

subsection \<open>Dispatch of patterns\<close>

definition substitutePatterns ::
  "'j externals \<Rightarrow> validator \<Rightarrow> 'j \<Rightarrow> panic + (err + validator)" where
  "substitutePatterns ext v j =
     (if pattern v \<noteq> JNull then
        (case SubstituteAll ext j (pattern v) of
           Inl e \<Rightarrow> Inr (Inl e)
         | Inr JNull \<Rightarrow> Inl TypeAssertionFailed
         | Inr i \<Rightarrow> Inr (Inr (v\<lparr>pattern := i\<rparr>)))
      else if anyPattern v \<noteq> JNull then
        (case SubstituteAll ext j (anyPattern v) of
           Inl e \<Rightarrow> Inr (Inl e)
         | Inr JNull \<Rightarrow> Inl TypeAssertionFailed
         | Inr i \<Rightarrow> Inr (Inr (v\<lparr>anyPattern := i\<rparr>)))
      else Inr (Inr v))"

definition validateResourceWithRule ::
  "'j externals \<Rightarrow> validator \<Rightarrow> 'j \<Rightarrow> panic + RuleResponse option" where
  "validateResourceWithRule ext v j =
     (let element = Element (policyContext v) in
      if \<not> isEmptyUnstructured element then
        map_sum id Some (validatePatterns ext v j element)
      else if isDeleteRequest (policyContext v) then Inr None
      else map_sum id Some (validatePatterns ext v j (NewResource (policyContext v))))"

subsection \<open>forEach\<close>

definition addElementToContext ::
  "'j externals \<Rightarrow> PolicyContext \<Rightarrow> json \<Rightarrow> nat \<Rightarrow> nat \<Rightarrow> bool option \<Rightarrow> 'j
     \<Rightarrow> err option \<times> PolicyContext \<times> 'j" where
  "addElementToContext ext ctx element index nest elementScope j =
     (case DocumentToUntyped ext element of
        Inl e \<Rightarrow> (Some e, ctx, j)
      | Inr data \<Rightarrow>
          (case AddElement ext data index nest j of
             (Some e, j') \<Rightarrow>
               (Some (''failed to add element ('' @ FormatValue ext element
                      @ '') to JSON context: '' @ e), ctx, j')
           | (None, j') \<Rightarrow>
               (let ok = (case data of JObject m \<Rightarrow> True | _ \<Rightarrow> False);
                    dataMap = (case data of JObject m \<Rightarrow> Some m | _ \<Rightarrow> None) in
                if elementScope = Some True \<and> \<not> ok then
                  (Some (''cannot use elementScope=true foreach rules for elements that are ''
                         @ ''not maps, expected type=map got type='' @ FormatTypeOf ext data),
                   ctx, j')
                else
                  (let scoped = (case elementScope of None \<Rightarrow> ok | Some es \<Rightarrow> es) in
                   if scoped then (None, ctx\<lparr>Element := \<lparr>Object = dataMap\<rparr>\<rparr>, j')
                   else (None, ctx, j')))))"

text \<open>The measure of the recursion: the nesting of \<open>foreach\<close> blocks.\<close>

definition blocksSize :: "ForEachValidation list option \<Rightarrow> nat" where
  "blocksSize fs = (case fs of None \<Rightarrow> 0 | Some bs \<Rightarrow> Suc (size_list size bs))"

lemma newForEachValidator_forEach:
  "newForEachValidator ext foreach nest r ctx = Inr fv \<Longrightarrow> Nested foreach = Inr (forEach fv)"
  by (auto simp: newForEachValidator_def split: sum.splits)

lemma blocksSize_Nested: "Nested foreach = Inr fs \<Longrightarrow> blocksSize fs < size foreach"
  by (cases foreach) (auto simp: blocksSize_def split: option.splits)

text \<open>
  The deferred \<open>Restore\<close> of \<open>validateElements\<close>, run on the JSON context when the
  function returns.
\<close>

definition deferRestore ::
  "'j externals \<Rightarrow> panic + (RuleResponse \<times> nat \<times> 'j) \<Rightarrow> panic + (RuleResponse \<times> nat \<times> 'j)" where
  "deferRestore ext res =
     (case res of
        Inl p \<Rightarrow> Inl p
      | Inr (resp, applyCount, j') \<Rightarrow> Inr (resp, applyCount, Restore ext j'))"

text \<open>
  \<open>validate\<close>, \<open>validateForEach\<close> (its loop over the blocks is \<open>forEachLoop\<close>) and
  \<open>validateElements\<close> (its loop over the elements is \<open>elementsLoop\<close>, which carries
  \<open>len(elements)\<close> and the running index). A panic ends the evaluation.
\<close>

function
  validate :: "'j externals \<Rightarrow> validator \<Rightarrow> 'j \<Rightarrow> panic + (RuleResponse option \<times> 'j)"
and
  validateForEach :: "'j externals \<Rightarrow> validator \<Rightarrow> 'j \<Rightarrow> panic + (RuleResponse option \<times> 'j)"
and
  forEachLoop ::
    "'j externals \<Rightarrow> validator \<Rightarrow> ForEachValidation list \<Rightarrow> nat \<Rightarrow> 'j
       \<Rightarrow> panic + (RuleResponse option \<times> 'j)"
and
  validateElements ::
    "'j externals \<Rightarrow> validator \<Rightarrow> ForEachValidation \<Rightarrow> json list \<Rightarrow> bool option \<Rightarrow> 'j
       \<Rightarrow> panic + (RuleResponse \<times> nat \<times> 'j)"
and
  elementsLoop ::
    "'j externals \<Rightarrow> validator \<Rightarrow> ForEachValidation \<Rightarrow> bool option \<Rightarrow> nat \<Rightarrow> nat
       \<Rightarrow> json list \<Rightarrow> nat \<Rightarrow> 'j \<Rightarrow> panic + (RuleResponse \<times> nat \<times> 'j)"
where
  "validate ext v j =
     (case LoadContext ext (contextEntries v) (policyContext v) (RuleName (rule v)) j of
        (Some e, j1) \<Rightarrow>
          Inr (Some (ruleError (rule v) Validation ''failed to load context'' e), j1)
      | (None, j1) \<Rightarrow>
          (case checkPreconditions ext (policyContext v) (anyAllConditions v) j1 of
             Inl e \<Rightarrow>
               Inr (Some (ruleError (rule v) Validation
                            ''failed to evaluate preconditions'' e), j1)
           | Inr preconditionsPassed \<Rightarrow>
               (if \<not> preconditionsPassed then
                  Inr (Some (ruleResponse (rule v) Validation ''preconditions not met''
                               RuleStatusSkip), j1)
                else if deny v \<noteq> None then
                  (case validateDeny ext v j1 of
                     Inl p \<Rightarrow> Inl p
                   | Inr r \<Rightarrow> Inr (Some r, j1))
                else if pattern v \<noteq> JNull \<or> anyPattern v \<noteq> JNull then
                  (case substitutePatterns ext v j1 of
                     Inl p \<Rightarrow> Inl p
                   | Inr (Inl e) \<Rightarrow>
                       Inr (Some (ruleError (rule v) Validation
                                    ''variable substitution failed'' e), j1)
                   | Inr (Inr v') \<Rightarrow>
                       (case validateResourceWithRule ext v' j1 of
                          Inl p \<Rightarrow> Inl p
                        | Inr r \<Rightarrow> Inr (r, j1)))
                else if podSecurity v \<noteq> None \<and> \<not> isDeleteRequest (policyContext v) then
                  (case validatePodSecurity ext v of
                     Inl p \<Rightarrow> Inl p
                   | Inr r \<Rightarrow> Inr (Some r, j1))
                else if forEach v \<noteq> None then validateForEach ext v j1
                else Inr (None, j1))))"
| "validateForEach ext v j =
     forEachLoop ext v (case forEach v of None \<Rightarrow> [] | Some blocks \<Rightarrow> blocks) 0 j"
| "forEachLoop ext v [] applyCount j =
     (if applyCount = 0 then
        (if forEach v = None then Inr (None, j)
         else Inr (Some (ruleResponse (rule v) Validation ''rule skipped'' RuleStatusSkip), j))
      else Inr (Some (ruleResponse (rule v) Validation ''rule passed'' RuleStatusPass), j))"
| "forEachLoop ext v (foreach # rest) applyCount j =
     (case evaluateList ext (List foreach) j of
        Inl e \<Rightarrow> forEachLoop ext v rest applyCount j
      | Inr elements \<Rightarrow>
          (case validateElements ext v foreach elements (ElementScope foreach) j of
             Inl p \<Rightarrow> Inl p
           | Inr (resp, count, j') \<Rightarrow>
               (if Status resp \<noteq> RuleStatusPass then Inr (Some resp, j')
                else forEachLoop ext v rest (applyCount + count) j')))"
| "validateElements ext v foreach elements elementScope j =
     deferRestore ext
       (elementsLoop ext v foreach elementScope (length elements) 0 elements 0
          (Checkpoint ext j))"
| "elementsLoop ext v foreach elementScope n index [] applyCount j =
     Inr (ruleResponse (rule v) Validation [] RuleStatusPass, applyCount, j)"
| "elementsLoop ext v foreach elementScope n index (element # rest) applyCount j =
     (if element = JNull then
        elementsLoop ext v foreach elementScope n (Suc index) rest applyCount j
      else
        (case addElementToContext ext (policyContext v) element index (nesting v)
                elementScope (Reset ext j) of
           (Some e, ctx, j1) \<Rightarrow>
             Inr (ruleError (rule v) Validation ''failed to process foreach'' e,
                  applyCount, j1)
         | (None, ctx, j1) \<Rightarrow>
             (case newForEachValidator ext foreach (nesting v + 1) (rule v) ctx of
                Inl e \<Rightarrow>
                  Inr (ruleError (rule v) Validation
                         ''failed to create foreach validator'' e, applyCount, j1)
              | Inr foreachValidator \<Rightarrow>
                  (case validate ext foreachValidator j1 of
                     Inl p \<Rightarrow> Inl p
                   | Inr (None, j2) \<Rightarrow>
                       elementsLoop ext v foreach elementScope n (Suc index) rest
                         applyCount j2
                   | Inr (Some r, j2) \<Rightarrow>
                       (if Status r = RuleStatusSkip then
                          elementsLoop ext v foreach elementScope n (Suc index) rest
                            applyCount j2
                        else if Status r \<noteq> RuleStatusPass then
                          (if Status r = RuleStatusError then
                             (if int index < int n - 1 then
                                elementsLoop ext v foreach elementScope n (Suc index) rest
                                  applyCount j2
                              else
                                Inr (ruleResponse (rule v) Validation
                                       (''validation failure: '' @ Message r) (Status r),
                                     applyCount, j2))
                           else
                             Inr (ruleResponse (rule v) Validation
                                    (''validation failure: '' @ Message r) (Status r),
                                  applyCount, j2))
                        else
                          elementsLoop ext v foreach elementScope n (Suc index) rest
                            (applyCount + 1) j2)))))"
  by pat_completeness auto
termination
proof (relation "measures
    [(\<lambda>x. case x of
        Inl (Inl (ext, v, j)) \<Rightarrow> blocksSize (forEach v)
      | Inl (Inr (ext, v, j)) \<Rightarrow> blocksSize (forEach v)
      | Inr (Inl (ext, v, blocks, c, j)) \<Rightarrow> size_list size blocks
      | Inr (Inr (Inl (ext, v, foreach, elements, es, j))) \<Rightarrow> size foreach
      | Inr (Inr (Inr (ext, v, foreach, es, n, i, elements, c, j))) \<Rightarrow> size foreach),
     (\<lambda>x. case x of
        Inl (Inl (ext, v, j)) \<Rightarrow> 2
      | Inl (Inr (ext, v, j)) \<Rightarrow> 1
      | Inr (Inl (ext, v, blocks, c, j)) \<Rightarrow> 0
      | Inr (Inr (Inl (ext, v, foreach, elements, es, j))) \<Rightarrow> Suc (length elements)
      | Inr (Inr (Inr (ext, v, foreach, es, n, i, elements, c, j))) \<Rightarrow> length elements)]",
    goal_cases)
  case 1
  show ?case by simp
next
  case 2
  then show ?case by simp
next
  case 3
  then show ?case by (simp add: blocksSize_def split: option.splits)
qed (auto dest!: newForEachValidator_forEach blocksSize_Nested)

declare validate.simps [simp del]
declare validateForEach.simps [simp del]
declare validateElements.simps [simp del]

definition processValidationRule ::
  "'j externals \<Rightarrow> PolicyContext \<Rightarrow> Rule \<Rightarrow> 'j \<Rightarrow> panic + (RuleResponse option \<times> 'j)" where
  "processValidationRule ext pctx r j = validate ext (newValidator pctx r) j"

section \<open>Match filter and policy exceptions\<close>

text \<open>
  \<open>matches\<close>: the comparison of the method value \<open>ctx.OldResource\<close> with an empty
  \<open>Unstructured\<close> is never equal, so the old resource is always tried.
\<close>

definition matches :: "'j externals \<Rightarrow> Rule \<Rightarrow> PolicyContext \<Rightarrow> bool" where
  "matches ext r ctx =
     (if MatchesResourceDescription ext (NewResource ctx) r ctx = None then True
      else if MatchesResourceDescription ext (OldResource ctx) r ctx = None then True
      else False)"

fun firstMatchingException ::
  "'j externals \<Rightarrow> PolicyContext \<Rightarrow> PolicyException list \<Rightarrow> PolicyException option" where
  "firstMatchingException ext ctx [] = None"
| "firstMatchingException ext ctx (candidate # rest) =
     (if CheckMatchesResources ext (NewResource ctx) (ExceptionMatch candidate) ctx = None
      then Some candidate
      else firstMatchingException ext ctx rest)"

definition matchesException ::
  "'j externals \<Rightarrow> PolicyContext \<Rightarrow> Rule \<Rightarrow> err + PolicyException option" where
  "matchesException ext ctx r =
     (case FindExceptions ext ctx (RuleName r) of
        Inl e \<Rightarrow> Inl e
      | Inr candidates \<Rightarrow> Inr (firstMatchingException ext ctx candidates))"

text \<open>
  \<open>hasPolicyExceptions\<close> answers only when \<open>matchesException\<close> returned no error and
  an exception. When \<open>cache.MetaNamespaceKeyFunc\<close> fails, the key appended to the
  message is the empty string it returns with its error.
\<close>

definition hasPolicyExceptions ::
  "'j externals \<Rightarrow> PolicyContext \<Rightarrow> Rule \<Rightarrow> RuleResponse option" where
  "hasPolicyExceptions ext ctx r =
     (case matchesException ext ctx r of
        Inr (Some exception) \<Rightarrow>
          (case MetaNamespaceKeyFunc ext exception of
             Inl e \<Rightarrow>
               Some \<lparr>Name = RuleName r, Type = None,
                     Message = ''failed to find matched exception '' @ [],
                     Status = RuleStatusError, PodSecurityChecksOf = None\<rparr>
           | Inr key \<Rightarrow>
               Some \<lparr>Name = RuleName r, Type = None,
                     Message = ''rule skipped due to policy exception '' @ key,
                     Status = RuleStatusSkip, PodSecurityChecksOf = None\<rparr>)
      | _ \<Rightarrow> None)"

section \<open>The policy driver\<close>

definition emptyEngineResponse :: EngineResponse where
  "emptyEngineResponse =
     \<lparr>PatchedResource = emptyUnstructured, ResponsePolicy = None,
      ResponsePolicyName = [], ResponsePolicyNamespace = [],
      ResourceName = [], ResourceNamespace = [], ResourceKind = [],
      ResourceAPIVersion = [], ResponseValidationFailureAction = [],
      ResponseValidationFailureActionOverrides = [],
      Rules = [], RulesAppliedCount = 0, RulesErrorCount = 0,
      ResponseNamespaceLabels = []\<rparr>"

text \<open>
  Modelled from the spec: \<open>incrementAppliedCount\<close> and \<open>incrementErrorCount\<close> live in
  another file of package \<open>engine\<close>; each adds one to its counter of the response.
\<close>

definition incrementAppliedCount :: "EngineResponse \<Rightarrow> EngineResponse" where
  "incrementAppliedCount resp = resp\<lparr>RulesAppliedCount := RulesAppliedCount resp + 1\<rparr>"

definition incrementErrorCount :: "EngineResponse \<Rightarrow> EngineResponse" where
  "incrementErrorCount resp = resp\<lparr>RulesErrorCount := RulesErrorCount resp + 1\<rparr>"

text \<open>The execution statistics \<open>addRuleResponse\<close> stamps on the response are wall-clock
  times and are left out.\<close>

definition addRuleResponse :: "EngineResponse \<Rightarrow> RuleResponse \<Rightarrow> EngineResponse" where
  "addRuleResponse resp ruleResp =
     (let resp1 =
        (if Status ruleResp = RuleStatusPass \<or> Status ruleResp = RuleStatusFail then
           incrementAppliedCount resp
         else if Status ruleResp = RuleStatusError then incrementErrorCount resp
         else resp)
      in resp1\<lparr>Rules := Rules resp1 @ [ruleResp]\<rparr>)"

text \<open>The body of the span that \<open>validateResource\<close> opens for each rule.\<close>

definition ruleSpan ::
  "'j externals \<Rightarrow> PolicyContext \<Rightarrow> Rule \<Rightarrow> 'j \<Rightarrow> panic + (RuleResponse option \<times> 'j)" where
  "ruleSpan ext enginectx r j =
     (let hasValidate = HasValidate ext r;
          hasValidateImage = HasImagesValidationChecks ext r;
          hasYAMLSignatureVerify = HasYAMLSignatureVerify ext r in
      if \<not> hasValidate \<and> \<not> hasValidateImage then Inr (None, j)
      else if \<not> matches ext r enginectx then Inr (None, j)
      else
        (case hasPolicyExceptions ext enginectx r of
           Some ruleResp \<Rightarrow> Inr (Some ruleResp, j)
         | None \<Rightarrow>
             (let j1 = Reset ext j in
              if hasValidate \<and> \<not> hasYAMLSignatureVerify then
                processValidationRule ext enginectx r j1
              else if hasValidateImage then
                Inr (processImageValidationRule ext enginectx r j1)
              else if hasYAMLSignatureVerify then
                Inr (processYAMLValidationRule ext enginectx r j1)
              else Inr (None, j1))))"

fun rulesLoop ::
  "'j externals \<Rightarrow> PolicyContext \<Rightarrow> ApplyRulesType \<Rightarrow> Rule list \<Rightarrow> EngineResponse \<Rightarrow> 'j
     \<Rightarrow> panic + (EngineResponse \<times> 'j)" where
  "rulesLoop ext enginectx applyRules [] resp j = Inr (resp, j)"
| "rulesLoop ext enginectx applyRules (r # rest) resp j =
     (case ruleSpan ext enginectx r (Reset ext j) of
        Inl p \<Rightarrow> Inl p
      | Inr (None, j1) \<Rightarrow> rulesLoop ext enginectx applyRules rest resp j1
      | Inr (Some ruleResp, j1) \<Rightarrow>
          (let resp1 = addRuleResponse resp ruleResp in
           if applyRules = ApplyOne \<and> RulesAppliedCount resp1 > 0 then Inr (resp1, j1)
           else rulesLoop ext enginectx applyRules rest resp1 j1))"

definition validateResource ::
  "'j externals \<Rightarrow> PolicyContext \<Rightarrow> 'j \<Rightarrow> panic + (EngineResponse \<times> 'j)" where
  "validateResource ext enginectx j =
     (let resp = emptyEngineResponse;
          j0 = Checkpoint ext j;
          rules = ComputeRules ext (PolicyOf enginectx);
          applyRules = ApplyRules (PolicyOf enginectx);
          newResource = NewResource enginectx;
          oldResource = OldResource enginectx;
          polNs = PolicyNamespace (PolicyOf enginectx) in
      if IsNamespaced (PolicyOf enginectx)
         \<and> Object newResource \<noteq> None
         \<and> (GetNamespace newResource \<noteq> polNs \<or> GetNamespace newResource = []) then
        Inr (resp, Restore ext j0)
      else if IsNamespaced (PolicyOf enginectx)
         \<and> Object oldResource \<noteq> None
         \<and> (GetNamespace oldResource \<noteq> polNs \<or> GetNamespace oldResource = []) then
        Inr (resp, Restore ext j0)
      else
        (case rulesLoop ext enginectx applyRules rules resp j0 of
           Inl p \<Rightarrow> Inl p
         | Inr (resp', j') \<Rightarrow> Inr (resp', Restore ext j')))"

text \<open>
  \<open>buildResponse\<close>: its first test compares a pointer with a struct and never holds.
  The time stamps are left out.
\<close>

definition buildResponse :: "PolicyContext \<Rightarrow> EngineResponse \<Rightarrow> EngineResponse" where
  "buildResponse ctx resp =
     (let resp1 =
        (if isEmptyUnstructured (PatchedResource resp) then
           resp\<lparr>PatchedResource :=
                  (if isEmptyUnstructured (NewResource ctx) then OldResource ctx
                   else NewResource ctx)\<rparr>
         else resp);
          policy = PolicyOf ctx in
      resp1\<lparr>ResponsePolicy := Some policy,
             ResponsePolicyName := PolicyName policy,
             ResponsePolicyNamespace := PolicyNamespace policy,
             ResourceName := GetName (PatchedResource resp1),
             ResourceNamespace := GetNamespace (PatchedResource resp1),
             ResourceKind := GetKind (PatchedResource resp1),
             ResourceAPIVersion := GetAPIVersion (PatchedResource resp1),
             ResponseValidationFailureAction := ValidationFailureAction policy,
             ResponseValidationFailureActionOverrides :=
               ResponseValidationFailureActionOverrides resp1
               @ ValidationFailureActionOverrides policy\<rparr>)"

definition Validate ::
  "'j externals \<Rightarrow> PolicyContext \<Rightarrow> 'j \<Rightarrow> panic + (EngineResponse \<times> 'j)" where
  "Validate ext pctx j =
     (case validateResource ext pctx j of
        Inl p \<Rightarrow> Inl p
      | Inr (resp, j') \<Rightarrow>
          Inr (buildResponse pctx
                 (resp\<lparr>ResponseNamespaceLabels := NamespaceLabels pctx\<rparr>), j'))"

section \<open>A concrete instance of the collaborators\<close>

text \<open>
  A small instance of the external functions, used to run the engine on concrete
  inputs. The JSON context is the list that the list expression \<open>items\<close> evaluates to.
  The matcher reads its verdict from the pattern when the pattern is a string and from
  the key \<open>verdict\<close> of the resource otherwise. The template \<open>{{replicas}}\<close>
  substitutes to the number 3.
\<close>

definition exampleVerdict :: "string \<Rightarrow> matchError option" where
  "exampleVerdict s =
     (if s = ''skip'' then Some (PatternError ''conditional anchor'' ''/verdict'' True)
      else if s = ''fail'' then Some (PatternError ''mismatch'' ''/verdict'' False)
      else if s = ''error'' then Some (PatternError ''bad pattern'' [] False)
      else None)"

definition exampleMatch :: "(string \<times> json) list option \<Rightarrow> json \<Rightarrow> matchError option" where
  "exampleMatch obj pat =
     (case pat of
        JString s \<Rightarrow> exampleVerdict s
      | _ \<Rightarrow>
          (case obj of
             None \<Rightarrow> None
           | Some m \<Rightarrow>
               (case map_of m ''verdict'' of
                  Some (JString s) \<Rightarrow> exampleVerdict s
                | _ \<Rightarrow> None)))"

definition exampleExternals :: "json list externals" where
  "exampleExternals =
     \<lparr>Checkpoint = id, Restore = id, Reset = id,
      AddElement = (\<lambda>d i n j. (None, j)),
      LoadContext = (\<lambda>es c n j. (None, j)),
      checkPreconditions = (\<lambda>c conds j. Inr (conds \<noteq> JBool False)),
      SubstituteAll =
        (\<lambda>j d. if d = JString ''{{replicas}}'' then Inr (JNumber 3) else Inr d),
      SubstituteAllDeny = (\<lambda>j d. Inr d),
      TransformConditions = Inr,
      EvaluateConditions = (\<lambda>j c. c = JBool True),
      evaluateList =
        (\<lambda>e j. if e = ''items'' then Inr j
               else if e = ''none'' then Inr []
               else Inl ''not found''),
      MatchPattern = exampleMatch,
      DocumentToUntyped = Inr,
      ToMap = Inr,
      Unmarshal = (\<lambda>t u. None),
      EvaluatePod = (\<lambda>p x. Inr (True, [])),
      FormatValue = (\<lambda>d. ''?''),
      FormatTypeOf = (\<lambda>d. ''?''),
      FormatChecksPrint = (\<lambda>cs. []),
      ComputeRules = SpecRules,
      HasValidate = (\<lambda>r. True),
      HasImagesValidationChecks = (\<lambda>r. False),
      HasYAMLSignatureVerify = (\<lambda>r. False),
      MatchesResourceDescription = (\<lambda>u r c. None),
      FindExceptions =
        (\<lambda>c n. if n = ''broken'' then Inl ''lookup failed''
               else if n = ''excepted''
               then Inr [\<lparr>ExceptionName = ''e1'', ExceptionNamespace = ''ns'',
                          ExceptionMatch = JNull\<rparr>]
               else Inr []),
      CheckMatchesResources = (\<lambda>u m c. None),
      MetaNamespaceKeyFunc = (\<lambda>e. Inr (ExceptionNamespace e @ ''/'' @ ExceptionName e)),
      processImageValidationRule = (\<lambda>c r j. (None, j)),
      processYAMLValidationRule = (\<lambda>c r j. (None, j))\<rparr>"

definition verdict :: "string \<Rightarrow> json" where
  "verdict s = JObject [(''verdict'', JString s)]"

definition patternRule :: "string \<Rightarrow> string \<Rightarrow> json \<Rightarrow> Rule" where
  "patternRule name msg pat =
     \<lparr>RuleName = name, RuleContext = [], RuleAnyAllConditions = JNull,
      RuleValidation =
        \<lparr>ValidationMessage = msg, RawPattern = pat, RawAnyPattern = JNull,
         ValidationDeny = None, ValidationPodSecurity = None,
         ValidationForEach = None\<rparr>\<rparr>"

definition examplePolicy :: "ApplyRulesType \<Rightarrow> Rule list \<Rightarrow> Policy" where
  "examplePolicy ap rs =
     \<lparr>PolicyName = ''p'', PolicyNamespace = [], IsNamespaced = False, ApplyRules = ap,
      ValidationFailureAction = ''audit'', ValidationFailureActionOverrides = [],
      SpecRules = rs\<rparr>"

definition exampleContext :: "Policy \<Rightarrow> (string \<times> json) list \<Rightarrow> PolicyContext" where
  "exampleContext pol obj =
     \<lparr>PolicyOf = pol, NewResource = \<lparr>Object = Some obj\<rparr>,
      OldResource = emptyUnstructured, Element = emptyUnstructured,
      AdmissionInfo = JNull, NamespaceLabels = []\<rparr>"

definition fourRules :: "Rule list" where
  "fourRules =
     [patternRule ''r1'' [] (JString ''pass''), patternRule ''r2'' [] (JString ''fail''),
      patternRule ''r3'' [] (JString ''error''), patternRule ''r4'' [] (JString ''skip'')]"

definition passRule :: Rule where "passRule = patternRule ''r1'' [] (JString ''pass'')"
definition failRule :: Rule where "failRule = patternRule ''r2'' [] (JString ''fail'')"
definition errorRule :: Rule where "errorRule = patternRule ''r3'' [] (JString ''error'')"
definition skipRule :: Rule where "skipRule = patternRule ''r4'' [] (JString ''skip'')"

definition passResponse :: RuleResponse where
  "passResponse = ruleResponse passRule Validation
     (''validation rule '' @ quote @ ''r1'' @ quote @ '' passed.'') RuleStatusPass"
definition failResponse :: RuleResponse where
  "failResponse = ruleResponse failRule Validation
     ''validation error: rule r2 failed at path /verdict'' RuleStatusFail"
definition errorResponse :: RuleResponse where
  "errorResponse = ruleResponse errorRule Validation
     ''validation error: rule r3 execution error: bad pattern'' RuleStatusError"
definition skipResponse :: RuleResponse where
  "skipResponse = ruleResponse skipRule Validation ''conditional anchor'' RuleStatusSkip"

definition namespacedContext :: PolicyContext where
  "namespacedContext =
     exampleContext
       ((examplePolicy ApplyAll fourRules)\<lparr>IsNamespaced := True, PolicyNamespace := ''team-a''\<rparr>)
       [(''kind'', JString ''Pod''),
        (''metadata'', JObject [(''name'', JString ''web''), (''namespace'', JString ''team-b'')])]"

definition brokenRule :: Rule where "brokenRule = patternRule ''broken'' [] (JString ''pass'')"
definition exceptedRule :: Rule where "exceptedRule = patternRule ''excepted'' [] (JString ''fail'')"

definition patternBlock :: "string \<Rightarrow> json \<Rightarrow> ForEachValidation" where
  "patternBlock listExpr pat =
     ForEachValidation listExpr None [] JNull pat JNull None (Inr None)"

definition forEachRule :: "string \<Rightarrow> ForEachValidation list \<Rightarrow> Rule" where
  "forEachRule name blocks =
     \<lparr>RuleName = name, RuleContext = [], RuleAnyAllConditions = JNull,
      RuleValidation =
        \<lparr>ValidationMessage = [], RawPattern = JNull, RawAnyPattern = JNull,
         ValidationDeny = None, ValidationPodSecurity = None,
         ValidationForEach = Some blocks\<rparr>\<rparr>"

definition forEachValidator :: "ForEachValidation list \<Rightarrow> validator" where
  "forEachValidator blocks =
     newValidator (exampleContext (examplePolicy ApplyAll []) [(''kind'', JString ''Pod'')])
       (forEachRule ''each'' blocks)"

definition verdictBlock :: ForEachValidation where
  "verdictBlock = patternBlock ''items'' (JObject [])"

definition verdictValidator :: validator where
  "verdictValidator = forEachValidator [verdictBlock]"

definition elementContext :: "string \<Rightarrow> PolicyContext" where
  "elementContext s =
     (policyContext verdictValidator)
       \<lparr>Element := \<lparr>Object = Some [(''verdict'', JString s)]\<rparr>\<rparr>"

definition elementValidator :: "string \<Rightarrow> validator" where
  "elementValidator s =
     \<lparr>rule = rule verdictValidator, policyContext = elementContext s,
      contextEntries = [], anyAllConditions = JNull, pattern = JObject [],
      anyPattern = JNull, deny = None, podSecurity = None, forEach = None,
      nesting = 1\<rparr>"

text \<open>
  The total count of elements that passed across all foreach blocks, in the words of
  the specification: the sum of the counts of the blocks, defined when every block is
  skipped or completes with a Pass response; the JSON context after the last block
  comes with it.
\<close>

fun totalApplyCount ::
  "'j externals \<Rightarrow> validator \<Rightarrow> ForEachValidation list \<Rightarrow> 'j \<Rightarrow> (nat \<times> 'j) option" where
  "totalApplyCount ext v [] j = Some (0, j)"
| "totalApplyCount ext v (foreach # rest) j =
     (case evaluateList ext (List foreach) j of
        Inl e \<Rightarrow> totalApplyCount ext v rest j
      | Inr elements \<Rightarrow>
          (case validateElements ext v foreach elements (ElementScope foreach) j of
             Inl p \<Rightarrow> None
           | Inr (resp, count, j') \<Rightarrow>
               (if Status resp = RuleStatusPass then
                  (case totalApplyCount ext v rest j' of
                     None \<Rightarrow> None
                   | Some (passed, j'') \<Rightarrow> Some (count + passed, j''))
                else None)))"

definition emptyListBlock :: ForEachValidation where
  "emptyListBlock = patternBlock ''none'' (JObject [])"

definition podSecurityRule :: Rule where
  "podSecurityRule =
     \<lparr>RuleName = ''psa'', RuleContext = [], RuleAnyAllConditions = JNull,
      RuleValidation =
        \<lparr>ValidationMessage = [], RawPattern = JNull, RawAnyPattern = JNull,
         ValidationDeny = None,
         ValidationPodSecurity = Some \<lparr>Level = ''baseline'', Version = ''latest''\<rparr>,
         ValidationForEach = None\<rparr>\<rparr>"

definition podSecurityValidator :: "(string \<times> json) list \<Rightarrow> validator" where
  "podSecurityValidator obj =
     newValidator (exampleContext (examplePolicy ApplyAll [podSecurityRule]) obj)
       podSecurityRule"

definition serviceResource :: "(string \<times> json) list" where
  "serviceResource =
     [(''apiVersion'', JString ''v1''), (''kind'', JString ''Service''),
      (''metadata'', JObject [(''name'', JString ''web'')]),
      (''spec'', JObject [(''type'', JString ''ClusterIP'')])]"

definition podResource :: "(string \<times> json) list" where
  "podResource =
     [(''apiVersion'', JString ''v1''), (''kind'', JString ''Pod''),
      (''metadata'', JObject [(''name'', JString ''web'')]),
      (''spec'', JObject [(''hostNetwork'', JBool False)])]"

definition patternValidator :: "string \<Rightarrow> json \<Rightarrow> validator" where
  "patternValidator msg pat =
     newValidator (exampleContext (examplePolicy ApplyAll []) podResource)
       (patternRule ''r1'' msg pat)"

definition denyValidator :: "string \<Rightarrow> validator" where
  "denyValidator msg =
     newValidator (exampleContext (examplePolicy ApplyAll []) podResource)
       \<lparr>RuleName = ''r1'', RuleContext = [], RuleAnyAllConditions = JNull,
        RuleValidation =
          \<lparr>ValidationMessage = msg, RawPattern = JNull, RawAnyPattern = JNull,
           ValidationDeny = Some \<lparr>RawAnyAllConditions = JBool True\<rparr>,
           ValidationPodSecurity = None, ValidationForEach = None\<rparr>\<rparr>"

text \<open>
  The per-entry error texts of an \<open>anyPattern\<close> list, in the words of the messages
  the rule reports: one text for every entry that fails, and one for every entry that
  is skipped, each with the index of its entry.
\<close>

fun failedTexts ::
  "'j externals \<Rightarrow> string \<Rightarrow> (string \<times> json) list option \<Rightarrow> nat \<Rightarrow> json list \<Rightarrow> string list" where
  "failedTexts ext name obj idx [] = []"
| "failedTexts ext name obj idx (p # ps) =
     (case MatchPattern ext obj p of
        Some (PatternError e path False) \<Rightarrow>
          [if path = [] then ''rule '' @ name @ ''['' @ decimal idx @ ''] failed: '' @ e
           else ''rule '' @ name @ ''['' @ decimal idx @ ''] failed at path '' @ path]
      | _ \<Rightarrow> [])
     @ failedTexts ext name obj (Suc idx) ps"

fun skippedTexts ::
  "'j externals \<Rightarrow> string \<Rightarrow> (string \<times> json) list option \<Rightarrow> nat \<Rightarrow> json list \<Rightarrow> string list" where
  "skippedTexts ext name obj idx [] = []"
| "skippedTexts ext name obj idx (p # ps) =
     (case MatchPattern ext obj p of
        Some (PatternError e path True) \<Rightarrow>
          [''rule '' @ name @ ''['' @ decimal idx @ ''] skipped: '' @ e]
      | _ \<Rightarrow> [])
     @ skippedTexts ext name obj (Suc idx) ps"

definition anyPatternValidator :: "string \<Rightarrow> json list \<Rightarrow> validator" where
  "anyPatternValidator msg entries =
     newValidator (exampleContext (examplePolicy ApplyAll []) podResource)
       \<lparr>RuleName = ''any'', RuleContext = [], RuleAnyAllConditions = JNull,
        RuleValidation =
          \<lparr>ValidationMessage = msg, RawPattern = JNull, RawAnyPattern = JArray entries,
           ValidationDeny = None, ValidationPodSecurity = None,
           ValidationForEach = None\<rparr>\<rparr>"

section \<open>Basic facts\<close>

lemma Status_ruleError [simp]: "Status (ruleError r t msg e) = RuleStatusError"
  by (simp add: ruleError_def ruleResponse_def)

lemma Status_ruleResponse [simp]: "Status (ruleResponse r t msg s) = s"
  by (simp add: ruleResponse_def)

lemma addRuleResponse_applied:
  "RulesAppliedCount (addRuleResponse resp rr) =
     (if Status rr = RuleStatusPass \<or> Status rr = RuleStatusFail
      then RulesAppliedCount resp + 1 else RulesAppliedCount resp)"
  by (simp add: addRuleResponse_def incrementAppliedCount_def incrementErrorCount_def Let_def)

lemma addRuleResponse_Rules: "Rules (addRuleResponse resp rr) = Rules resp @ [rr]"
  by (simp add: addRuleResponse_def incrementAppliedCount_def incrementErrorCount_def Let_def)

section \<open>Response accounting\<close>

definition statusCount :: "RuleStatus \<Rightarrow> RuleResponse list \<Rightarrow> int" where
  "statusCount s rs = int (length (filter (\<lambda>r. Status r = s) rs))"

definition countersAgree :: "EngineResponse \<Rightarrow> bool" where
  "countersAgree resp =
     (RulesAppliedCount resp
        = statusCount RuleStatusPass (Rules resp) + statusCount RuleStatusFail (Rules resp)
      \<and> RulesErrorCount resp = statusCount RuleStatusError (Rules resp))"

lemma countersAgree_empty: "countersAgree emptyEngineResponse"
  by (simp add: countersAgree_def emptyEngineResponse_def statusCount_def)

lemma countersAgree_addRuleResponse:
  "countersAgree resp \<Longrightarrow> countersAgree (addRuleResponse resp ruleResp)"
  by (cases "Status ruleResp")
     (simp_all add: countersAgree_def addRuleResponse_def incrementAppliedCount_def
        incrementErrorCount_def statusCount_def)

lemma countersAgree_rulesLoop:
  "countersAgree resp \<Longrightarrow> rulesLoop ext ctx ap rs resp j = Inr (resp', j')
     \<Longrightarrow> countersAgree resp'"
proof (induction rs arbitrary: resp j)
  case Nil
  then show ?case by simp
next
  case (Cons r rs)
  show ?case
  proof (cases "ruleSpan ext ctx r (Reset ext j)")
    case (Inl p)
    with Cons.prems show ?thesis by simp
  next
    case (Inr res)
    obtain out j1 where res: "res = (out, j1)" by (cases res)
    show ?thesis
    proof (cases out)
      case None
      with Cons Inr res show ?thesis by simp
    next
      case (Some rr)
      have agree: "countersAgree (addRuleResponse resp rr)"
        using Cons.prems(1) by (rule countersAgree_addRuleResponse)
      show ?thesis
      proof (cases "ap = ApplyOne \<and> RulesAppliedCount (addRuleResponse resp rr) > 0")
        case True
        with Cons.prems(2) Inr res Some have "resp' = addRuleResponse resp rr"
          by (simp add: Let_def)
        with agree show ?thesis by simp
      next
        case False
        with Cons.prems(2) Inr res Some
        have "rulesLoop ext ctx ap rs (addRuleResponse resp rr) j1 = Inr (resp', j')"
          by (simp add: Let_def)
        with agree show ?thesis by (rule Cons.IH)
      qed
    qed
  qed
qed

lemma countersAgree_validateResource:
  "validateResource ext ctx j = Inr (resp, j') \<Longrightarrow> countersAgree resp"
  by (auto simp: validateResource_def Let_def countersAgree_empty
        split: if_splits sum.splits prod.splits
        dest: countersAgree_rulesLoop [OF countersAgree_empty])

lemma countersAgree_buildResponse:
  "countersAgree (buildResponse ctx resp) = countersAgree resp"
  by (simp add: buildResponse_def countersAgree_def Let_def)

text \<open>
  Claim C7. In every engine response that \<open>Validate\<close> produces, the applied counter is
  the number of rule responses with status Pass plus the number with status Fail, and
  the errored counter is the number of rule responses with status Error.
\<close>

theorem Validate_counters:
  "Validate ext pctx j = Inr (resp, j') \<Longrightarrow>
     RulesAppliedCount resp
       = statusCount RuleStatusPass (Rules resp) + statusCount RuleStatusFail (Rules resp)
     \<and> RulesErrorCount resp = statusCount RuleStatusError (Rules resp)"
proof -
  assume run: "Validate ext pctx j = Inr (resp, j')"
  then obtain resp0 where
    r0: "validateResource ext pctx j = Inr (resp0, j')" and
    resp: "resp = buildResponse pctx (resp0\<lparr>ResponseNamespaceLabels := NamespaceLabels pctx\<rparr>)"
    by (auto simp: Validate_def split: sum.splits prod.splits)
  from r0 have "countersAgree resp0" by (rule countersAgree_validateResource)
  then have "countersAgree (resp0\<lparr>ResponseNamespaceLabels := NamespaceLabels pctx\<rparr>)"
    by (simp add: countersAgree_def)
  then have "countersAgree resp"
    by (simp add: resp countersAgree_buildResponse)
  then show ?thesis by (simp add: countersAgree_def)
qed

text \<open>A run over four rules that pass, fail, error and skip.\<close>

theorem Validate_counters_witness:
  "\<exists>resp j'.
     Validate exampleExternals (exampleContext (examplePolicy ApplyAll fourRules) []) []
       = Inr (resp, j')
     \<and> map Status (Rules resp)
         = [RuleStatusPass, RuleStatusFail, RuleStatusError, RuleStatusSkip]
     \<and> RulesAppliedCount resp
         = statusCount RuleStatusPass (Rules resp) + statusCount RuleStatusFail (Rules resp)
     \<and> RulesErrorCount resp = statusCount RuleStatusError (Rules resp)"
proof -
  let ?run = "Validate exampleExternals (exampleContext (examplePolicy ApplyAll fourRules) []) []"
  have "\<not> isl ?run" by code_simp
  then obtain resp j' where run: "?run = Inr (resp, j')"
    by (cases ?run) auto
  have "map Status (Rules (fst (projr ?run)))
          = [RuleStatusPass, RuleStatusFail, RuleStatusError, RuleStatusSkip]"
    by code_simp
  with run have statuses:
    "map Status (Rules resp) = [RuleStatusPass, RuleStatusFail, RuleStatusError, RuleStatusSkip]"
    by simp
  have counters:
    "RulesAppliedCount resp
       = statusCount RuleStatusPass (Rules resp) + statusCount RuleStatusFail (Rules resp)
     \<and> RulesErrorCount resp = statusCount RuleStatusError (Rules resp)"
    using run by (rule Validate_counters)
  show ?thesis
    apply (rule exI [of _ resp])
    apply (rule exI [of _ j'])
    using run statuses counters apply simp
    done
qed

section \<open>Apply-one policies\<close>

lemma rulesLoop_ApplyOne_append:
  "rulesLoop ext ctx ApplyOne pre resp0 j = Inr (resp, j1) \<Longrightarrow> RulesAppliedCount resp = 0
     \<Longrightarrow> rulesLoop ext ctx ApplyOne (pre @ rest) resp0 j = rulesLoop ext ctx ApplyOne rest resp j1"
proof (induction pre arbitrary: resp0 j)
  case Nil
  then show ?case by simp
next
  case (Cons r pre)
  show ?case
  proof (cases "ruleSpan ext ctx r (Reset ext j)")
    case (Inl p)
    with Cons.prems show ?thesis by simp
  next
    case (Inr res)
    obtain out j' where res: "res = (out, j')" by (cases res)
    show ?thesis
    proof (cases out)
      case None
      with Cons Inr res show ?thesis by simp
    next
      case (Some rr)
      show ?thesis
      proof (cases "RulesAppliedCount (addRuleResponse resp0 rr) > 0")
        case True
        with Cons.prems Inr res Some show ?thesis by (simp add: Let_def)
      next
        case False
        with Cons.prems(1) Inr res Some
        have "rulesLoop ext ctx ApplyOne pre (addRuleResponse resp0 rr) j' = Inr (resp, j1)"
          by (simp add: Let_def)
        from Cons.IH [OF this Cons.prems(2)] False Inr res Some show ?thesis
          by (simp add: Let_def)
      qed
    qed
  qed
qed

text \<open>
  Claim C3. Under \<open>applyRules = one\<close> the rule loop stops right after the first rule
  whose response has status Pass or Fail and goes on after a response with status Skip
  or Error: if the loop over the rules \<open>pre\<close> ended without an applied rule and the next
  rule \<open>r\<close> answers \<open>rr\<close>, the run over \<open>pre @ r # post\<close> ends with \<open>rr\<close> when \<open>rr\<close>
  is Pass or Fail, and continues with \<open>post\<close> when it is Skip or Error. In particular,
  for a policy of three rules whose first rule passes, \<open>validateResource\<close> returns
  exactly one rule response and an applied count of 1.
\<close>

theorem applyOne_stops_at_first_applied:
  "(rulesLoop ext ctx ApplyOne pre emptyEngineResponse j = Inr (resp, ja)
      \<and> RulesAppliedCount resp = 0
      \<and> ruleSpan ext ctx r (Reset ext ja) = Inr (Some rr, jb)
    \<longrightarrow>
      (Status rr = RuleStatusPass \<or> Status rr = RuleStatusFail \<longrightarrow>
         rulesLoop ext ctx ApplyOne (pre @ r # post) emptyEngineResponse j
           = Inr (addRuleResponse resp rr, jb))
      \<and> (Status rr = RuleStatusSkip \<or> Status rr = RuleStatusError \<longrightarrow>
         rulesLoop ext ctx ApplyOne (pre @ r # post) emptyEngineResponse j
           = rulesLoop ext ctx ApplyOne post (addRuleResponse resp rr) jb))
   \<and> (ComputeRules ext (PolicyOf ctx) = [ra, rb, rc]
      \<and> ApplyRules (PolicyOf ctx) = ApplyOne
      \<and> \<not> IsNamespaced (PolicyOf ctx)
      \<and> ruleSpan ext ctx ra (Reset ext (Checkpoint ext j)) = Inr (Some rra, jc)
      \<and> Status rra = RuleStatusPass
    \<longrightarrow>
      (\<exists>resp'. validateResource ext ctx j = Inr (resp', Restore ext jc)
         \<and> Rules resp' = [rra] \<and> RulesAppliedCount resp' = 1))"
proof (intro conjI impI)
  assume a: "rulesLoop ext ctx ApplyOne pre emptyEngineResponse j = Inr (resp, ja)
      \<and> RulesAppliedCount resp = 0
      \<and> ruleSpan ext ctx r (Reset ext ja) = Inr (Some rr, jb)"
  then have split: "rulesLoop ext ctx ApplyOne (pre @ r # post) emptyEngineResponse j
      = rulesLoop ext ctx ApplyOne (r # post) resp ja"
    by (simp add: rulesLoop_ApplyOne_append)
  {
    assume "Status rr = RuleStatusPass \<or> Status rr = RuleStatusFail"
    with a split
    show "rulesLoop ext ctx ApplyOne (pre @ r # post) emptyEngineResponse j
           = Inr (addRuleResponse resp rr, jb)"
      by (simp add: Let_def addRuleResponse_applied)
  }
  {
    assume "Status rr = RuleStatusSkip \<or> Status rr = RuleStatusError"
    with a split
    show "rulesLoop ext ctx ApplyOne (pre @ r # post) emptyEngineResponse j
           = rulesLoop ext ctx ApplyOne post (addRuleResponse resp rr) jb"
      by (auto simp: Let_def addRuleResponse_applied)
  }
next
  assume b: "ComputeRules ext (PolicyOf ctx) = [ra, rb, rc]
      \<and> ApplyRules (PolicyOf ctx) = ApplyOne
      \<and> \<not> IsNamespaced (PolicyOf ctx)
      \<and> ruleSpan ext ctx ra (Reset ext (Checkpoint ext j)) = Inr (Some rra, jc)
      \<and> Status rra = RuleStatusPass"
  then have "validateResource ext ctx j
      = Inr (addRuleResponse emptyEngineResponse rra, Restore ext jc)"
    by (simp add: validateResource_def Let_def addRuleResponse_applied emptyEngineResponse_def)
  moreover have "Rules (addRuleResponse emptyEngineResponse rra) = [rra]"
    by (simp add: addRuleResponse_Rules emptyEngineResponse_def)
  moreover have "RulesAppliedCount (addRuleResponse emptyEngineResponse rra) = 1"
    using b by (simp add: addRuleResponse_applied emptyEngineResponse_def)
  ultimately show "\<exists>resp'. validateResource ext ctx j = Inr (resp', Restore ext jc)
         \<and> Rules resp' = [rra] \<and> RulesAppliedCount resp' = 1"
    by blast
qed

text \<open>Runs that stop at a failing rule, go on after an error, and the three-rule scenario.\<close>

theorem applyOne_stops_at_first_applied_witness:
  "rulesLoop exampleExternals (exampleContext (examplePolicy ApplyOne []) []) ApplyOne
     ([skipRule] @ failRule # [passRule]) emptyEngineResponse []
     = Inr (addRuleResponse (addRuleResponse emptyEngineResponse skipResponse) failResponse, [])
   \<and> rulesLoop exampleExternals (exampleContext (examplePolicy ApplyOne []) []) ApplyOne
     ([skipRule] @ errorRule # [passRule]) emptyEngineResponse []
     = rulesLoop exampleExternals (exampleContext (examplePolicy ApplyOne []) []) ApplyOne
         [passRule] (addRuleResponse (addRuleResponse emptyEngineResponse skipResponse)
                       errorResponse) []
   \<and> (\<exists>resp'.
        validateResource exampleExternals
          (exampleContext (examplePolicy ApplyOne [passRule, failRule, skipRule]) []) []
          = Inr (resp', [])
        \<and> Rules resp' = [passResponse] \<and> RulesAppliedCount resp' = 1)"
proof -
  let ?ctx = "exampleContext (examplePolicy ApplyOne []) []"
  let ?ctx3 = "exampleContext (examplePolicy ApplyOne [passRule, failRule, skipRule]) []"
  let ?resp = "addRuleResponse emptyEngineResponse skipResponse"
  have pre: "rulesLoop exampleExternals ?ctx ApplyOne [skipRule] emptyEngineResponse []
      = Inr (?resp, [])"
    by code_simp
  have zero: "RulesAppliedCount ?resp = 0" by code_simp
  have reset: "Reset exampleExternals [] = []" "Checkpoint exampleExternals [] = []"
    "Restore exampleExternals [] = []"
    by (simp_all add: exampleExternals_def)
  have f: "ruleSpan exampleExternals ?ctx failRule [] = Inr (Some failResponse, [])"
    by code_simp
  have e: "ruleSpan exampleExternals ?ctx errorRule [] = Inr (Some errorResponse, [])"
    by code_simp
  have p: "ruleSpan exampleExternals ?ctx3 passRule [] = Inr (Some passResponse, [])"
    by code_simp
  have sf: "Status failResponse = RuleStatusFail" "Status errorResponse = RuleStatusError"
    "Status passResponse = RuleStatusPass"
    by (simp_all add: failResponse_def errorResponse_def passResponse_def ruleResponse_def)
  have c3: "ComputeRules exampleExternals (PolicyOf ?ctx3) = [passRule, failRule, skipRule]"
    "ApplyRules (PolicyOf ?ctx3) = ApplyOne" "\<not> IsNamespaced (PolicyOf ?ctx3)"
    by (simp_all add: exampleExternals_def exampleContext_def examplePolicy_def)
  have A: "rulesLoop exampleExternals ?ctx ApplyOne ([skipRule] @ failRule # [passRule])
      emptyEngineResponse [] = Inr (addRuleResponse ?resp failResponse, [])"
    using applyOne_stops_at_first_applied
      [where ext = exampleExternals and ctx = ?ctx and pre = "[skipRule]" and j = "[]"
         and resp = ?resp and ja = "[]" and r = failRule and rr = failResponse
         and jb = "[]" and post = "[passRule]"]
      pre zero f sf reset by simp
  have B: "rulesLoop exampleExternals ?ctx ApplyOne ([skipRule] @ errorRule # [passRule])
      emptyEngineResponse []
      = rulesLoop exampleExternals ?ctx ApplyOne [passRule]
          (addRuleResponse ?resp errorResponse) []"
    using applyOne_stops_at_first_applied
      [where ext = exampleExternals and ctx = ?ctx and pre = "[skipRule]" and j = "[]"
         and resp = ?resp and ja = "[]" and r = errorRule and rr = errorResponse
         and jb = "[]" and post = "[passRule]"]
      pre zero e sf reset by simp
  have C: "\<exists>resp'. validateResource exampleExternals ?ctx3 [] = Inr (resp', [])
        \<and> Rules resp' = [passResponse] \<and> RulesAppliedCount resp' = 1"
    using applyOne_stops_at_first_applied
      [where ext = exampleExternals and ctx = ?ctx3 and j = "[]" and ra = passRule
         and rb = failRule and rc = skipRule and rra = passResponse and jc = "[]"]
      c3 p sf reset by simp
  from A B C show ?thesis by blast
qed

section \<open>Namespaced policies\<close>

text \<open>
  Claim C8. For a namespaced policy and a resource (new or old) that is present and
  whose namespace differs from the policy's namespace, \<open>validateResource\<close> returns the
  empty response and evaluates no rule: the JSON context only sees the checkpoint and
  its restore, the result is the same as for a policy without rules, and the response
  of \<open>Validate\<close> has an empty rule list.
\<close>

theorem namespaced_policy_other_namespace:
  assumes "IsNamespaced (PolicyOf ctx)"
    and "(Object (NewResource ctx) \<noteq> None
            \<and> GetNamespace (NewResource ctx) \<noteq> PolicyNamespace (PolicyOf ctx))
         \<or> (Object (OldResource ctx) \<noteq> None
            \<and> GetNamespace (OldResource ctx) \<noteq> PolicyNamespace (PolicyOf ctx))"
  shows "validateResource ext ctx j = Inr (emptyEngineResponse, Restore ext (Checkpoint ext j))
     \<and> validateResource ext ctx j = validateResource (ext\<lparr>ComputeRules := (\<lambda>p. [])\<rparr>) ctx j
     \<and> (\<exists>resp j'. Validate ext ctx j = Inr (resp, j') \<and> Rules resp = []
           \<and> RulesAppliedCount resp = 0 \<and> RulesErrorCount resp = 0)"
proof -
  have a: "validateResource ext ctx j
      = Inr (emptyEngineResponse, Restore ext (Checkpoint ext j))" for ext :: "'a externals"
    using assms by (auto simp: validateResource_def Let_def)
  have b: "validateResource (ext\<lparr>ComputeRules := (\<lambda>p. [])\<rparr>) ctx j
      = Inr (emptyEngineResponse, Restore ext (Checkpoint ext j))"
    using a [of "ext\<lparr>ComputeRules := (\<lambda>p. [])\<rparr>"] by simp
  have c: "\<exists>resp j'. Validate ext ctx j = Inr (resp, j') \<and> Rules resp = []
           \<and> RulesAppliedCount resp = 0 \<and> RulesErrorCount resp = 0"
    by (simp add: Validate_def a buildResponse_def Let_def emptyEngineResponse_def)
  from a b c show ?thesis by simp
qed

text \<open>A policy of namespace \<open>team-a\<close> with four rules and a pod of namespace \<open>team-b\<close>.\<close>

theorem namespaced_policy_other_namespace_witness:
  "validateResource exampleExternals namespacedContext []
     = Inr (emptyEngineResponse, Restore exampleExternals (Checkpoint exampleExternals []))
   \<and> ComputeRules exampleExternals (PolicyOf namespacedContext) = fourRules
   \<and> (\<exists>resp j'. Validate exampleExternals namespacedContext [] = Inr (resp, j')
         \<and> Rules resp = [])"
proof -
  have n: "IsNamespaced (PolicyOf namespacedContext)"
    by (simp add: namespacedContext_def exampleContext_def examplePolicy_def)
  have o: "Object (NewResource namespacedContext) \<noteq> None
      \<and> GetNamespace (NewResource namespacedContext)
          \<noteq> PolicyNamespace (PolicyOf namespacedContext)"
    by (simp add: namespacedContext_def exampleContext_def examplePolicy_def GetNamespace_def)
  have r: "ComputeRules exampleExternals (PolicyOf namespacedContext) = fourRules"
    by (simp add: namespacedContext_def exampleContext_def examplePolicy_def
          exampleExternals_def)
  from namespaced_policy_other_namespace [OF n disjI1 [OF o], of exampleExternals "[]"] r
  show ?thesis by blast
qed

section \<open>Policy exceptions\<close>

text \<open>
  Claim C9. If the exception lookup \<open>FindExceptions\<close> fails, \<open>hasPolicyExceptions\<close>
  returns no rule response and a matching validate rule proceeds to
  \<open>processValidationRule\<close>. Only a matched exception produces a response: status Skip,
  or status Error when computing the key of the exception fails.
\<close>

theorem exception_lookup_error_is_ignored:
  "(FindExceptions ext ctx (RuleName r) = Inl e \<longrightarrow>
      hasPolicyExceptions ext ctx r = None
      \<and> (HasValidate ext r \<and> \<not> HasYAMLSignatureVerify ext r \<and> matches ext r ctx \<longrightarrow>
           ruleSpan ext ctx r j = processValidationRule ext ctx r (Reset ext j)))
   \<and> (hasPolicyExceptions ext ctx r = Some resp \<longrightarrow>
        (\<exists>candidates exception.
           FindExceptions ext ctx (RuleName r) = Inr candidates
           \<and> firstMatchingException ext ctx candidates = Some exception
           \<and> (case MetaNamespaceKeyFunc ext exception of
                Inr key \<Rightarrow> Status resp = RuleStatusSkip
              | Inl err \<Rightarrow> Status resp = RuleStatusError)))"
proof (intro conjI impI)
  assume f: "FindExceptions ext ctx (RuleName r) = Inl e"
  then show none: "hasPolicyExceptions ext ctx r = None"
    by (simp add: hasPolicyExceptions_def matchesException_def)
  assume "HasValidate ext r \<and> \<not> HasYAMLSignatureVerify ext r \<and> matches ext r ctx"
  with none show "ruleSpan ext ctx r j = processValidationRule ext ctx r (Reset ext j)"
    by (simp add: ruleSpan_def Let_def)
next
  assume "hasPolicyExceptions ext ctx r = Some resp"
  then show "\<exists>candidates exception.
           FindExceptions ext ctx (RuleName r) = Inr candidates
           \<and> firstMatchingException ext ctx candidates = Some exception
           \<and> (case MetaNamespaceKeyFunc ext exception of
                Inr key \<Rightarrow> Status resp = RuleStatusSkip
              | Inl err \<Rightarrow> Status resp = RuleStatusError)"
    by (auto simp: hasPolicyExceptions_def matchesException_def
          split: sum.splits option.splits)
qed

text \<open>A rule whose lookup fails, and a rule with a matching exception.\<close>

theorem exception_lookup_error_is_ignored_witness:
  "hasPolicyExceptions exampleExternals (exampleContext (examplePolicy ApplyAll []) []) brokenRule
     = None
   \<and> ruleSpan exampleExternals (exampleContext (examplePolicy ApplyAll []) []) brokenRule []
       = processValidationRule exampleExternals (exampleContext (examplePolicy ApplyAll []) [])
           brokenRule (Reset exampleExternals [])
   \<and> (\<exists>resp. hasPolicyExceptions exampleExternals (exampleContext (examplePolicy ApplyAll []) [])
                 exceptedRule = Some resp
         \<and> Status resp = RuleStatusSkip)"
proof -
  let ?ctx = "exampleContext (examplePolicy ApplyAll []) []"
  have f: "FindExceptions exampleExternals ?ctx (RuleName brokenRule) = Inl ''lookup failed''"
    by (simp add: exampleExternals_def brokenRule_def patternRule_def)
  have m: "HasValidate exampleExternals brokenRule
      \<and> \<not> HasYAMLSignatureVerify exampleExternals brokenRule
      \<and> matches exampleExternals brokenRule ?ctx"
    by (simp add: exampleExternals_def matches_def)
  obtain resp where s: "hasPolicyExceptions exampleExternals ?ctx exceptedRule = Some resp"
    by (simp add: hasPolicyExceptions_def matchesException_def exampleExternals_def
          exceptedRule_def patternRule_def)
  have A: "hasPolicyExceptions exampleExternals ?ctx brokenRule = None
      \<and> ruleSpan exampleExternals ?ctx brokenRule []
          = processValidationRule exampleExternals ?ctx brokenRule (Reset exampleExternals [])"
    using exception_lookup_error_is_ignored
      [where ext = exampleExternals and ctx = ?ctx and r = brokenRule and j = "[]"
         and e = "''lookup failed''"] f m
    by blast
  have "\<exists>candidates exception.
           FindExceptions exampleExternals ?ctx (RuleName exceptedRule) = Inr candidates
           \<and> firstMatchingException exampleExternals ?ctx candidates = Some exception
           \<and> (case MetaNamespaceKeyFunc exampleExternals exception of
                Inr key \<Rightarrow> Status resp = RuleStatusSkip
              | Inl err \<Rightarrow> Status resp = RuleStatusError)"
    using exception_lookup_error_is_ignored
      [where ext = exampleExternals and ctx = ?ctx and r = exceptedRule and resp = resp] s
    by blast
  then have "Status resp = RuleStatusSkip"
    by (auto simp: exampleExternals_def exceptedRule_def patternRule_def)
  with A s show ?thesis by blast
qed

section \<open>forEach: blocks whose list expression fails\<close>

lemma forEachLoop_all_lists_fail:
  "\<forall>b \<in> set blocks. \<exists>e. evaluateList ext (List b) j = Inl e
     \<Longrightarrow> forEachLoop ext v blocks applyCount j = forEachLoop ext v [] applyCount j"
  by (induction blocks) auto

lemma forEachLoop_drop_failing_block:
  "\<forall>j'. \<exists>e. evaluateList ext (List foreach) j' = Inl e
     \<Longrightarrow> forEachLoop ext v (pre @ foreach # post) applyCount j
         = forEachLoop ext v (pre @ post) applyCount j"
proof (induction pre arbitrary: applyCount j)
  case Nil
  then obtain e where "evaluateList ext (List foreach) j = Inl e" by blast
  then show ?case by simp
next
  case (Cons b pre)
  then show ?case
    by (auto split: sum.splits prod.splits)
qed

text \<open>
  Claim C10. A foreach block whose list expression fails to evaluate is silently
  skipped: the loop of \<open>validateForEach\<close> goes on with the remaining blocks and the
  same apply count and JSON context, and a block whose expression fails in every
  context can be removed from the rule without changing the result. Consequently, if
  the list expression of every block fails, the rule response is Skip, not Error.
\<close>

theorem failed_list_expression_skips_block:
  "(evaluateList ext (List foreach) j = Inl e \<longrightarrow>
      forEachLoop ext v (foreach # rest) applyCount j = forEachLoop ext v rest applyCount j)
   \<and> ((\<forall>j'. \<exists>e'. evaluateList ext (List foreach) j' = Inl e') \<longrightarrow>
      forEachLoop ext v (pre @ foreach # post) applyCount j
        = forEachLoop ext v (pre @ post) applyCount j)
   \<and> (forEach v = Some blocks
       \<and> (\<forall>b \<in> set blocks. \<exists>e'. evaluateList ext (List b) j = Inl e') \<longrightarrow>
      validateForEach ext v j
        = Inr (Some (ruleResponse (rule v) Validation ''rule skipped'' RuleStatusSkip), j))"
proof (intro conjI impI)
  assume "evaluateList ext (List foreach) j = Inl e"
  then show "forEachLoop ext v (foreach # rest) applyCount j
      = forEachLoop ext v rest applyCount j"
    by simp
next
  assume "\<forall>j'. \<exists>e'. evaluateList ext (List foreach) j' = Inl e'"
  then show "forEachLoop ext v (pre @ foreach # post) applyCount j
        = forEachLoop ext v (pre @ post) applyCount j"
    by (rule forEachLoop_drop_failing_block)
next
  assume a: "forEach v = Some blocks
       \<and> (\<forall>b \<in> set blocks. \<exists>e'. evaluateList ext (List b) j = Inl e')"
  then have "forEachLoop ext v blocks 0 j = forEachLoop ext v [] 0 j"
    by (simp add: forEachLoop_all_lists_fail)
  with a show "validateForEach ext v j
        = Inr (Some (ruleResponse (rule v) Validation ''rule skipped'' RuleStatusSkip), j)"
    by (simp add: validateForEach.simps)
qed

text \<open>Blocks over the unknown expressions \<open>missing\<close> and \<open>absent\<close>.\<close>

theorem failed_list_expression_skips_block_witness:
  "forEachLoop exampleExternals
       (forEachValidator [patternBlock ''missing'' (JString ''fail''), patternBlock ''items'' (JString ''p'')])
       (patternBlock ''missing'' (JString ''fail'') # [patternBlock ''items'' (JString ''p'')]) 0
       [verdict ''pass'']
     = forEachLoop exampleExternals
       (forEachValidator [patternBlock ''missing'' (JString ''fail''), patternBlock ''items'' (JString ''p'')])
       [patternBlock ''items'' (JString ''p'')] 0 [verdict ''pass'']
   \<and> forEachLoop exampleExternals
       (forEachValidator [patternBlock ''missing'' (JString ''fail''), patternBlock ''items'' (JString ''p'')])
       ([patternBlock ''items'' (JString ''p'')] @ patternBlock ''missing'' (JString ''fail'') # []) 0
       [verdict ''pass'']
     = forEachLoop exampleExternals
       (forEachValidator [patternBlock ''missing'' (JString ''fail''), patternBlock ''items'' (JString ''p'')])
       ([patternBlock ''items'' (JString ''p'')] @ []) 0 [verdict ''pass'']
   \<and> validateForEach exampleExternals
       (forEachValidator [patternBlock ''missing'' (JString ''fail''), patternBlock ''absent'' (JString ''fail'')])
       [verdict ''pass'']
     = Inr (Some (ruleResponse (forEachRule ''each''
                    [patternBlock ''missing'' (JString ''fail''), patternBlock ''absent'' (JString ''fail'')])
                  Validation ''rule skipped'' RuleStatusSkip), [verdict ''pass''])"
proof -
  let ?bad = "patternBlock ''missing'' (JString ''fail'')"
  let ?bad2 = "patternBlock ''absent'' (JString ''fail'')"
  let ?good = "patternBlock ''items'' (JString ''p'')"
  have bad: "evaluateList exampleExternals (List ?bad) j = Inl ''not found''" for j
    by (simp add: exampleExternals_def patternBlock_def)
  have bad2: "evaluateList exampleExternals (List ?bad2) j = Inl ''not found''" for j
    by (simp add: exampleExternals_def patternBlock_def)
  have fe: "forEach (forEachValidator [?bad, ?bad2]) = Some [?bad, ?bad2]"
    by (simp add: forEachValidator_def newValidator_def forEachRule_def)
  have ru: "rule (forEachValidator [?bad, ?bad2]) = forEachRule ''each'' [?bad, ?bad2]"
    by (simp add: forEachValidator_def newValidator_def)
  have all: "\<forall>b \<in> set [?bad, ?bad2]. \<exists>e'. evaluateList exampleExternals (List b) [verdict ''pass''] = Inl e'"
    using bad bad2 by simp
  have every: "\<forall>j'. \<exists>e'. evaluateList exampleExternals (List ?bad) j' = Inl e'"
    using bad by blast
  note inst = failed_list_expression_skips_block
      [where ext = exampleExternals and foreach = ?bad and j = "[verdict ''pass'']"
         and e = "''not found''" and applyCount = 0 and rest = "[?good]"
         and pre = "[?good]" and post = "[]" and blocks = "[?bad, ?bad2]"]
  have A: "forEachLoop exampleExternals (forEachValidator [?bad, ?good]) (?bad # [?good]) 0
             [verdict ''pass'']
           = forEachLoop exampleExternals (forEachValidator [?bad, ?good]) [?good] 0
               [verdict ''pass'']"
    using inst [where v = "forEachValidator [?bad, ?good]"] bad by blast
  have B: "forEachLoop exampleExternals (forEachValidator [?bad, ?good])
             ([?good] @ ?bad # []) 0 [verdict ''pass'']
           = forEachLoop exampleExternals (forEachValidator [?bad, ?good]) ([?good] @ []) 0
               [verdict ''pass'']"
    using inst [where v = "forEachValidator [?bad, ?good]"] every by blast
  have C: "validateForEach exampleExternals (forEachValidator [?bad, ?bad2]) [verdict ''pass'']
      = Inr (Some (ruleResponse (rule (forEachValidator [?bad, ?bad2])) Validation
                     ''rule skipped'' RuleStatusSkip), [verdict ''pass''])"
    using inst [where v = "forEachValidator [?bad, ?bad2]"] fe all by blast
  from A B C ru show ?thesis by simp
qed

section \<open>forEach: aggregation over the elements\<close>

lemma elementsLoop_append:
  "elementsLoop ext v foreach es n i (pre @ rest) c j =
     (case elementsLoop ext v foreach es n i pre c j of
        Inl p \<Rightarrow> Inl p
      | Inr (resp, c', j') \<Rightarrow>
          if Status resp = RuleStatusPass
          then elementsLoop ext v foreach es n (i + length pre) rest c' j'
          else Inr (resp, c', j'))"
proof (induction pre arbitrary: i c j)
  case Nil
  show ?case by simp
next
  case (Cons a pre)
  show ?case
  proof (cases "a = JNull")
    case True
    then show ?thesis by (simp add: Cons.IH split: sum.splits prod.splits)
  next
    case notnull: False
    obtain eo ctx j1 where add:
      "addElementToContext ext (policyContext v) a i (nesting v) es (Reset ext j) = (eo, ctx, j1)"
      by (cases "addElementToContext ext (policyContext v) a i (nesting v) es (Reset ext j)")
    show ?thesis
    proof (cases eo)
      case (Some e)
      with notnull add show ?thesis by simp
    next
      case None
      show ?thesis
      proof (cases "newForEachValidator ext foreach (nesting v + 1) (rule v) ctx")
        case (Inl e)
        with notnull add None show ?thesis by simp
      next
        case new: (Inr fv)
        show ?thesis
        proof (cases "validate ext fv j1")
          case (Inl p)
          with notnull add None new show ?thesis by simp
        next
          case (Inr res)
          obtain ro j2 where res: "res = (ro, j2)" by (cases res)
          show ?thesis
          proof (cases ro)
            case none: None
            with notnull add None new Inr res show ?thesis by (simp add: Cons.IH split: sum.splits prod.splits)
          next
            case (Some r)
            show ?thesis
            proof (cases "Status r")
              case RuleStatusPass
              with notnull add None new Inr res Some show ?thesis by (simp add: Cons.IH split: sum.splits prod.splits)
            next
              case RuleStatusFail
              with notnull add None new Inr res Some show ?thesis by simp
            next
              case RuleStatusWarn
              with notnull add None new Inr res Some show ?thesis by simp
            next
              case RuleStatusError
              with notnull add None new Inr res Some show ?thesis by (simp add: Cons.IH split: sum.splits prod.splits)
            next
              case RuleStatusSkip
              with notnull add None new Inr res Some show ?thesis by (simp add: Cons.IH split: sum.splits prod.splits)
            qed
          qed
        qed
      qed
    qed
  qed
qed

text \<open>
  Claim C1. In \<open>validateElements\<close>, for every list of elements and every position in
  it: suppose the loop reached the non-null element at index \<open>length pre\<close> with the
  apply count \<open>applyCount\<close>, and the nested validation of the element returned the
  response \<open>r\<close>. If \<open>r\<close> is Pass, the loop goes on with the count incremented; if it
  is Skip, the loop goes on with the count unchanged; if it is Fail, the function
  returns at once with status Fail; if it is Error and the index is below
  \<open>len(elements) - 1\<close>, the error is dropped and the loop goes on; if it is Error on
  the last index, the function returns with status Error.
\<close>

theorem validateElements_aggregation:
  assumes reached:
      "elementsLoop ext v foreach elementScope (length (pre @ element # post)) 0 pre 0
         (Checkpoint ext j) = Inr (resp, applyCount, ja)"
    and completed: "Status resp = RuleStatusPass"
    and notnull: "element \<noteq> JNull"
    and added:
      "addElementToContext ext (policyContext v) element (length pre) (nesting v)
         elementScope (Reset ext ja) = (None, ctx, jb)"
    and new: "newForEachValidator ext foreach (nesting v + 1) (rule v) ctx = Inr fv"
    and nested: "validate ext fv jb = Inr (Some r, jc)"
  shows
    "(Status r = RuleStatusPass \<longrightarrow>
        validateElements ext v foreach (pre @ element # post) elementScope j
          = deferRestore ext
              (elementsLoop ext v foreach elementScope (length (pre @ element # post))
                 (Suc (length pre)) post (applyCount + 1) jc))
     \<and> (Status r = RuleStatusSkip \<longrightarrow>
        validateElements ext v foreach (pre @ element # post) elementScope j
          = deferRestore ext
              (elementsLoop ext v foreach elementScope (length (pre @ element # post))
                 (Suc (length pre)) post applyCount jc))
     \<and> (Status r = RuleStatusFail \<longrightarrow>
        validateElements ext v foreach (pre @ element # post) elementScope j
          = Inr (ruleResponse (rule v) Validation (''validation failure: '' @ Message r)
                   RuleStatusFail, applyCount, Restore ext jc))
     \<and> (Status r = RuleStatusError
          \<and> int (length pre) < int (length (pre @ element # post)) - 1 \<longrightarrow>
        validateElements ext v foreach (pre @ element # post) elementScope j
          = deferRestore ext
              (elementsLoop ext v foreach elementScope (length (pre @ element # post))
                 (Suc (length pre)) post applyCount jc))
     \<and> (Status r = RuleStatusError
          \<and> \<not> int (length pre) < int (length (pre @ element # post)) - 1 \<longrightarrow>
        validateElements ext v foreach (pre @ element # post) elementScope j
          = Inr (ruleResponse (rule v) Validation (''validation failure: '' @ Message r)
                   RuleStatusError, applyCount, Restore ext jc))"
proof -
  let ?n = "length (pre @ element # post)"
  have whole: "validateElements ext v foreach (pre @ element # post) elementScope j
      = deferRestore ext
          (elementsLoop ext v foreach elementScope ?n (length pre) (element # post)
             applyCount ja)"
    using reached completed
    by (simp add: validateElements.simps elementsLoop_append [where pre = pre])
  have step: "elementsLoop ext v foreach elementScope ?n (length pre) (element # post)
       applyCount ja =
     (if Status r = RuleStatusSkip then
        elementsLoop ext v foreach elementScope ?n (Suc (length pre)) post applyCount jc
      else if Status r \<noteq> RuleStatusPass then
        (if Status r = RuleStatusError then
           (if int (length pre) < int ?n - 1 then
              elementsLoop ext v foreach elementScope ?n (Suc (length pre)) post applyCount jc
            else
              Inr (ruleResponse (rule v) Validation (''validation failure: '' @ Message r)
                     (Status r), applyCount, jc))
         else
           Inr (ruleResponse (rule v) Validation (''validation failure: '' @ Message r)
                  (Status r), applyCount, jc))
      else
        elementsLoop ext v foreach elementScope ?n (Suc (length pre)) post
          (applyCount + 1) jc)"
    using notnull added new nested by simp
  show ?thesis
    unfolding whole step by (simp add: deferRestore_def)
qed

text \<open>
  Runs over elements that carry their verdict: every case of the theorem is taken once.
\<close>

lemma example_addElementToContext:
  "addElementToContext exampleExternals (policyContext verdictValidator) (verdict s) i
     (nesting verdictValidator) None (Reset exampleExternals j)
   = (None, elementContext s, j)"
  by (simp add: addElementToContext_def exampleExternals_def verdict_def elementContext_def)

lemma example_newForEachValidator:
  "newForEachValidator exampleExternals verdictBlock (nesting verdictValidator + 1)
     (rule verdictValidator) (elementContext s) = Inr (elementValidator s)"
  by (simp add: newForEachValidator_def exampleExternals_def verdictBlock_def
        patternBlock_def elementValidator_def verdictValidator_def forEachValidator_def
        newValidator_def)

theorem validateElements_aggregation_witness:
  "validateElements exampleExternals verdictValidator verdictBlock
       ([] @ verdict ''pass'' # [verdict ''skip'', verdict ''error'', verdict ''pass'']) None []
     = Inr (ruleResponse (rule verdictValidator) Validation [] RuleStatusPass, 2, [])
   \<and> validateElements exampleExternals verdictValidator verdictBlock
       ([verdict ''pass''] @ verdict ''skip'' # [verdict ''fail'', verdict ''pass'']) None []
     = Inr (ruleResponse (rule verdictValidator) Validation
              ''validation failure: validation error: rule each failed at path /verdict''
              RuleStatusFail, 1, [])
   \<and> validateElements exampleExternals verdictValidator verdictBlock
       ([verdict ''pass'', verdict ''skip''] @ verdict ''fail'' # [verdict ''pass'']) None []
     = Inr (ruleResponse (rule verdictValidator) Validation
              ''validation failure: validation error: rule each failed at path /verdict''
              RuleStatusFail, 1, [])
   \<and> validateElements exampleExternals verdictValidator verdictBlock
       ([verdict ''pass''] @ verdict ''error'' # [verdict ''pass'']) None []
     = Inr (ruleResponse (rule verdictValidator) Validation [] RuleStatusPass, 2, [])
   \<and> validateElements exampleExternals verdictValidator verdictBlock
       ([verdict ''pass''] @ verdict ''error'' # []) None []
     = Inr (ruleResponse (rule verdictValidator) Validation
              ''validation failure: validation error: rule each execution error: bad pattern''
              RuleStatusError, 1, [])"
proof -
  let ?run = "validateElements exampleExternals verdictValidator verdictBlock"
  let ?loop = "elementsLoop exampleExternals verdictValidator verdictBlock None"
  let ?ok = "ruleResponse (rule verdictValidator) Validation [] RuleStatusPass"
  let ?failed =
    "ruleResponse (rule verdictValidator) Validation
       ''validation failure: validation error: rule each failed at path /verdict''
       RuleStatusFail"
  let ?errored =
    "ruleResponse (rule verdictValidator) Validation
       ''validation failure: validation error: rule each execution error: bad pattern''
       RuleStatusError"
  let ?pass =
      "ruleResponse (rule verdictValidator) Validation
         (''validation rule '' @ quote @ ''each'' @ quote @ '' passed.'') RuleStatusPass"
  let ?skip =
      "ruleResponse (rule verdictValidator) Validation ''conditional anchor''
         RuleStatusSkip"
  let ?fail =
      "ruleResponse (rule verdictValidator) Validation
         ''validation error: rule each failed at path /verdict'' RuleStatusFail"
  let ?error =
      "ruleResponse (rule verdictValidator) Validation
         ''validation error: rule each execution error: bad pattern'' RuleStatusError"
  have nn: "verdict s \<noteq> JNull" for s by (simp add: verdict_def)
  have st: "Status ?ok = RuleStatusPass" by simp
  have npass: "validate exampleExternals (elementValidator ''pass'') [] = Inr (Some ?pass, [])"
    by code_simp
  have spass: "Status ?pass = RuleStatusPass" by simp
  have nskip: "validate exampleExternals (elementValidator ''skip'') [] = Inr (Some ?skip, [])"
    by code_simp
  have sskip: "Status ?skip = RuleStatusSkip" by simp
  have nfail: "validate exampleExternals (elementValidator ''fail'') [] = Inr (Some ?fail, [])"
    by code_simp
  have sfail: "Status ?fail = RuleStatusFail" by simp
  have nerror: "validate exampleExternals (elementValidator ''error'') [] = Inr (Some ?error, [])"
    by code_simp
  have serror: "Status ?error = RuleStatusError" by simp
  have rA: "?loop (length ([] @ verdict ''pass'' # [verdict ''skip'', verdict ''error'', verdict ''pass''])) 0 [] 0
      (Checkpoint exampleExternals []) = Inr (?ok, 0, [])"
    by (simp add: exampleExternals_def)
  note iA = validateElements_aggregation
      [OF rA st nn example_addElementToContext example_newForEachValidator npass]
  have eA: "?run ([] @ verdict ''pass'' # [verdict ''skip'', verdict ''error'', verdict ''pass'']) None []
      = deferRestore exampleExternals
          (?loop (length ([] @ verdict ''pass'' # [verdict ''skip'', verdict ''error'', verdict ''pass''])) (Suc (length ([]::json list)))
             [verdict ''skip'', verdict ''error'', verdict ''pass''] (0 + 1) [])"
    by (rule iA [THEN conjunct1, THEN mp, OF spass])
  have vA: "deferRestore exampleExternals
          (?loop (length ([] @ verdict ''pass'' # [verdict ''skip'', verdict ''error'', verdict ''pass''])) (Suc (length ([]::json list)))
             [verdict ''skip'', verdict ''error'', verdict ''pass''] (0 + 1) [])
      = Inr (?ok, 2, [])"
    by code_simp
  have A: "?run ([] @ verdict ''pass'' # [verdict ''skip'', verdict ''error'', verdict ''pass'']) None [] = Inr (?ok, 2, [])"
    using eA vA by (rule trans)
  have rB: "?loop (length ([verdict ''pass''] @ verdict ''skip'' # [verdict ''fail'', verdict ''pass''])) 0 [verdict ''pass''] 0
      (Checkpoint exampleExternals []) = Inr (?ok, 1, [])"
    by code_simp
  note iB = validateElements_aggregation
      [OF rB st nn example_addElementToContext example_newForEachValidator nskip]
  have eB: "?run ([verdict ''pass''] @ verdict ''skip'' # [verdict ''fail'', verdict ''pass'']) None []
      = deferRestore exampleExternals
          (?loop (length ([verdict ''pass''] @ verdict ''skip'' # [verdict ''fail'', verdict ''pass''])) (Suc (length [verdict ''pass'']))
             [verdict ''fail'', verdict ''pass''] 1 [])"
    by (rule iB [THEN conjunct2, THEN conjunct1, THEN mp, OF sskip])
  have vB: "deferRestore exampleExternals
          (?loop (length ([verdict ''pass''] @ verdict ''skip'' # [verdict ''fail'', verdict ''pass''])) (Suc (length [verdict ''pass'']))
             [verdict ''fail'', verdict ''pass''] 1 [])
      = Inr (?failed, 1, [])"
    by code_simp
  have B: "?run ([verdict ''pass''] @ verdict ''skip'' # [verdict ''fail'', verdict ''pass'']) None [] = Inr (?failed, 1, [])"
    using eB vB by (rule trans)
  have rC: "?loop (length ([verdict ''pass'', verdict ''skip''] @ verdict ''fail'' # [verdict ''pass''])) 0 [verdict ''pass'', verdict ''skip''] 0
      (Checkpoint exampleExternals []) = Inr (?ok, 1, [])"
    by code_simp
  note iC = validateElements_aggregation
      [OF rC st nn example_addElementToContext example_newForEachValidator nfail]
  have eC: "?run ([verdict ''pass'', verdict ''skip''] @ verdict ''fail'' # [verdict ''pass'']) None []
      = Inr (ruleResponse (rule verdictValidator) Validation
             (''validation failure: '' @ Message ?fail) RuleStatusFail,
           1, Restore exampleExternals [])"
    by (rule iC [THEN conjunct2, THEN conjunct2, THEN conjunct1, THEN mp, OF sfail])
  have vC: "(Inr (ruleResponse (rule verdictValidator) Validation
             (''validation failure: '' @ Message ?fail) RuleStatusFail,
           1, Restore exampleExternals []) :: panic + RuleResponse \<times> nat \<times> json list)
      = Inr (?failed, 1, [])"
    by code_simp
  have C: "?run ([verdict ''pass'', verdict ''skip''] @ verdict ''fail'' # [verdict ''pass'']) None [] = Inr (?failed, 1, [])"
    using eC vC by (rule trans)
  have rD: "?loop (length ([verdict ''pass''] @ verdict ''error'' # [verdict ''pass''])) 0 [verdict ''pass''] 0
      (Checkpoint exampleExternals []) = Inr (?ok, 1, [])"
    by code_simp
  note iD = validateElements_aggregation
      [OF rD st nn example_addElementToContext example_newForEachValidator nerror]
  have aD: "int (length [verdict ''pass'']) < int (length ([verdict ''pass''] @ verdict ''error'' # [verdict ''pass''])) - 1"
    by simp
  have eD: "?run ([verdict ''pass''] @ verdict ''error'' # [verdict ''pass'']) None []
      = deferRestore exampleExternals
          (?loop (length ([verdict ''pass''] @ verdict ''error'' # [verdict ''pass''])) (Suc (length [verdict ''pass'']))
             [verdict ''pass''] 1 [])"
    by (rule iD [THEN conjunct2, THEN conjunct2, THEN conjunct2, THEN conjunct1, THEN mp,
               OF conjI [OF serror aD]])
  have vD: "deferRestore exampleExternals
          (?loop (length ([verdict ''pass''] @ verdict ''error'' # [verdict ''pass''])) (Suc (length [verdict ''pass'']))
             [verdict ''pass''] 1 [])
      = Inr (?ok, 2, [])"
    by code_simp
  have D: "?run ([verdict ''pass''] @ verdict ''error'' # [verdict ''pass'']) None [] = Inr (?ok, 2, [])"
    using eD vD by (rule trans)
  have rE: "?loop (length ([verdict ''pass''] @ verdict ''error'' # [])) 0 [verdict ''pass''] 0
      (Checkpoint exampleExternals []) = Inr (?ok, 1, [])"
    by code_simp
  note iE = validateElements_aggregation
      [OF rE st nn example_addElementToContext example_newForEachValidator nerror]
  have aE: "\<not> int (length [verdict ''pass'']) < int (length ([verdict ''pass''] @ verdict ''error'' # [])) - 1"
    by simp
  have eE: "?run ([verdict ''pass''] @ verdict ''error'' # []) None []
      = Inr (ruleResponse (rule verdictValidator) Validation
             (''validation failure: '' @ Message ?error) RuleStatusError,
           1, Restore exampleExternals [])"
    by (rule iE [THEN conjunct2, THEN conjunct2, THEN conjunct2, THEN conjunct2, THEN mp,
               OF conjI [OF serror aE]])
  have vE: "(Inr (ruleResponse (rule verdictValidator) Validation
             (''validation failure: '' @ Message ?error) RuleStatusError,
           1, Restore exampleExternals []) :: panic + RuleResponse \<times> nat \<times> json list)
      = Inr (?errored, 1, [])"
    by code_simp
  have E: "?run ([verdict ''pass''] @ verdict ''error'' # []) None [] = Inr (?errored, 1, [])"
    using eE vE by (rule trans)
  from A B C D E show ?thesis by (intro conjI)
qed

section \<open>forEach: outcome of the rule\<close>

lemma forEachLoop_totalApplyCount:
  "totalApplyCount ext v blocks j = Some (passed, j')
     \<Longrightarrow> forEachLoop ext v blocks c j = forEachLoop ext v [] (c + passed) j'"
proof (induction blocks arbitrary: c j passed)
  case Nil
  then show ?case by simp
next
  case (Cons b blocks)
  show ?case
  proof (cases "evaluateList ext (List b) j")
    case (Inl e)
    with Cons show ?thesis by simp
  next
    case (Inr elements)
    show ?thesis
    proof (cases "validateElements ext v b elements (ElementScope b) j")
      case (Inl p)
      with Cons.prems Inr show ?thesis by simp
    next
      case res: (Inr x)
      obtain resp count j1 where x: "x = (resp, count, j1)" by (cases x)
      show ?thesis
      proof (cases "Status resp = RuleStatusPass")
        case False
        with Cons.prems Inr res x show ?thesis by simp
      next
        case True
        with Cons.prems Inr res x obtain t where
          t: "totalApplyCount ext v blocks j1 = Some (t, j')" and passed: "passed = count + t"
          by (auto split: option.splits)
        from Cons.IH [OF t, of "c + count"] Inr res x True passed show ?thesis
          by (simp add: add.assoc)
      qed
    qed
  qed
qed

text \<open>
  Claim C6, as amended. For every forEach rule whose context loads and whose
  preconditions pass, if every foreach block is skipped or completes with a Pass
  response of \<open>validateElements\<close>, the rule response is Skip when the total count of
  elements that passed across all blocks is zero and Pass otherwise. In particular a
  forEach over an empty list yields Skip.
\<close>

theorem forEach_rule_outcome:
  assumes loaded:
      "LoadContext ext (contextEntries v) (policyContext v) (RuleName (rule v)) j = (None, ja)"
    and preconditions:
      "checkPreconditions ext (policyContext v) (anyAllConditions v) ja = Inr True"
    and payload: "deny v = None" "pattern v = JNull" "anyPattern v = JNull"
      "podSecurity v = None \<or> isDeleteRequest (policyContext v)"
    and blocks: "forEach v = Some blocks"
  shows
    "(totalApplyCount ext v blocks ja = Some (passed, jb) \<longrightarrow>
        validate ext v j =
          Inr (Some (if passed = 0
                     then ruleResponse (rule v) Validation ''rule skipped'' RuleStatusSkip
                     else ruleResponse (rule v) Validation ''rule passed'' RuleStatusPass),
               jb))
     \<and> (blocks = [foreach] \<and> evaluateList ext (List foreach) ja = Inr [] \<longrightarrow>
        validate ext v j =
          Inr (Some (ruleResponse (rule v) Validation ''rule skipped'' RuleStatusSkip),
               Restore ext (Checkpoint ext ja)))"
proof -
  have dispatch: "validate ext v j = forEachLoop ext v blocks 0 ja"
    using loaded preconditions payload blocks
    by (auto simp: validate.simps validateForEach.simps)
  have finish: "forEachLoop ext v [] c jx =
      Inr (Some (if c = 0
                 then ruleResponse (rule v) Validation ''rule skipped'' RuleStatusSkip
                 else ruleResponse (rule v) Validation ''rule passed'' RuleStatusPass), jx)"
    for c jx
    using blocks by simp
  have first: "totalApplyCount ext v blocks ja = Some (passed, jb) \<longrightarrow>
        validate ext v j =
          Inr (Some (if passed = 0
                     then ruleResponse (rule v) Validation ''rule skipped'' RuleStatusSkip
                     else ruleResponse (rule v) Validation ''rule passed'' RuleStatusPass),
               jb)"
    using forEachLoop_totalApplyCount [of ext v blocks ja passed jb 0] blocks
    by (simp add: dispatch)
  have second: "blocks = [foreach] \<and> evaluateList ext (List foreach) ja = Inr [] \<longrightarrow>
        validate ext v j =
          Inr (Some (ruleResponse (rule v) Validation ''rule skipped'' RuleStatusSkip),
               Restore ext (Checkpoint ext ja))"
    using blocks
    by (simp add: dispatch validateElements.simps deferRestore_def)
  from first second show ?thesis by simp
qed

text \<open>
  Claim C6 as stated does not hold: for the rule below the preconditions pass and no
  element passes (the count of the only block is 0), but the only element fails and
  the rule response is Fail, not Skip.
\<close>

theorem forEach_rule_outcome_counterexample:
  "checkPreconditions exampleExternals (policyContext verdictValidator)
       (anyAllConditions verdictValidator) [verdict ''fail''] = Inr True
   \<and> forEach verdictValidator = Some [verdictBlock]
   \<and> evaluateList exampleExternals (List verdictBlock) [verdict ''fail'']
       = Inr [verdict ''fail'']
   \<and> validateElements exampleExternals verdictValidator verdictBlock [verdict ''fail''] None
         [verdict ''fail'']
       = Inr (ruleResponse (rule verdictValidator) Validation
                ''validation failure: validation error: rule each failed at path /verdict''
                RuleStatusFail, 0, [verdict ''fail''])
   \<and> validate exampleExternals verdictValidator [verdict ''fail'']
       = Inr (Some (ruleResponse (rule verdictValidator) Validation
                ''validation failure: validation error: rule each failed at path /verdict''
                RuleStatusFail), [verdict ''fail''])"
  by code_simp

text \<open>A rule with one passed element, one with none, and one over an empty list.\<close>

theorem forEach_rule_outcome_witness:
  "validate exampleExternals verdictValidator [verdict ''pass'', verdict ''skip'']
     = Inr (Some (ruleResponse (rule verdictValidator) Validation ''rule passed''
                    RuleStatusPass), [verdict ''pass'', verdict ''skip''])
   \<and> validate exampleExternals verdictValidator [verdict ''skip'']
     = Inr (Some (ruleResponse (rule verdictValidator) Validation ''rule skipped''
                    RuleStatusSkip), [verdict ''skip''])
   \<and> validate exampleExternals (forEachValidator [emptyListBlock]) []
     = Inr (Some (ruleResponse (rule (forEachValidator [emptyListBlock])) Validation
                    ''rule skipped'' RuleStatusSkip), [])"
proof -
  have loaded: "LoadContext exampleExternals (contextEntries (forEachValidator bs))
      (policyContext (forEachValidator bs)) (RuleName (rule (forEachValidator bs))) j
      = (None, j)" for bs j
    by (simp add: exampleExternals_def)
  have preconditions: "checkPreconditions exampleExternals
      (policyContext (forEachValidator bs)) (anyAllConditions (forEachValidator bs)) j
      = Inr True" for bs j
    by (simp add: exampleExternals_def forEachValidator_def newValidator_def forEachRule_def)
  have payload: "deny (forEachValidator bs) = None" "pattern (forEachValidator bs) = JNull"
    "anyPattern (forEachValidator bs) = JNull"
    "podSecurity (forEachValidator bs) = None
       \<or> isDeleteRequest (policyContext (forEachValidator bs))"
    "forEach (forEachValidator bs) = Some bs" for bs
    by (simp_all add: forEachValidator_def newValidator_def forEachRule_def)
  note inst = forEach_rule_outcome [OF loaded preconditions payload]
  have one: "totalApplyCount exampleExternals (forEachValidator [verdictBlock]) [verdictBlock]
      [verdict ''pass'', verdict ''skip''] = Some (1, [verdict ''pass'', verdict ''skip''])"
    by code_simp
  have zero: "totalApplyCount exampleExternals (forEachValidator [verdictBlock]) [verdictBlock]
      [verdict ''skip''] = Some (0, [verdict ''skip''])"
    by code_simp
  have none: "[emptyListBlock] = [emptyListBlock]
      \<and> evaluateList exampleExternals (List emptyListBlock) [] = Inr []"
    by (simp add: exampleExternals_def emptyListBlock_def patternBlock_def)
  have A: "validate exampleExternals verdictValidator [verdict ''pass'', verdict ''skip'']
     = Inr (Some (ruleResponse (rule verdictValidator) Validation ''rule passed''
                    RuleStatusPass), [verdict ''pass'', verdict ''skip''])"
    using inst [THEN conjunct1, THEN mp, OF one]
    by (simp add: verdictValidator_def)
  have B: "validate exampleExternals verdictValidator [verdict ''skip'']
     = Inr (Some (ruleResponse (rule verdictValidator) Validation ''rule skipped''
                    RuleStatusSkip), [verdict ''skip''])"
    using inst [THEN conjunct1, THEN mp, OF zero]
    by (simp add: verdictValidator_def)
  have C: "validate exampleExternals (forEachValidator [emptyListBlock]) []
     = Inr (Some (ruleResponse (rule (forEachValidator [emptyListBlock])) Validation
                    ''rule skipped'' RuleStatusSkip), [])"
    using inst [THEN conjunct2, THEN mp, OF none]
    by (simp add: exampleExternals_def)
  from A B C show ?thesis by simp
qed

section \<open>Pod security: the pod spec by kind\<close>

text \<open>
  For the controller kinds, CronJob and Pod, \<open>getSpec\<close> reads the pod spec from
  \<open>spec.template.spec\<close>, \<open>spec.jobTemplate.spec.template.spec\<close> and \<open>spec\<close>. For any
  other kind it returns two \<open>nil\<close> pointers and no error, and \<open>validatePodSecurity\<close>
  dereferences them.
\<close>

lemma getSpec_controller:
  "GetKind (NewResource (policyContext v)) \<in>
     {''DaemonSet'', ''Deployment'', ''Job'', ''StatefulSet'', ''ReplicaSet'',
      ''ReplicationController''}
   \<Longrightarrow> Unmarshal ext AsDeployment (NewResource (policyContext v)) = None
   \<Longrightarrow> getSpec ext v =
       (Some (lookupPath (Object (NewResource (policyContext v)))
                [''spec'', ''template'', ''spec'']),
        Some (lookupPath (Object (NewResource (policyContext v)))
                [''spec'', ''template'', ''metadata'']), None)"
  by (auto simp: getSpec_def Let_def)

lemma getSpec_CronJob:
  "GetKind (NewResource (policyContext v)) = ''CronJob''
   \<Longrightarrow> Unmarshal ext AsCronJob (NewResource (policyContext v)) = None
   \<Longrightarrow> getSpec ext v =
       (Some (lookupPath (Object (NewResource (policyContext v)))
                [''spec'', ''jobTemplate'', ''spec'', ''template'', ''spec'']),
        Some (lookupPath (Object (NewResource (policyContext v)))
                [''spec'', ''jobTemplate'', ''metadata'']), None)"
  by (simp add: getSpec_def Let_def)

lemma getSpec_Pod:
  "GetKind (NewResource (policyContext v)) = ''Pod''
   \<Longrightarrow> Unmarshal ext AsPod (NewResource (policyContext v)) = None
   \<Longrightarrow> getSpec ext v =
       (Some (lookupPath (Object (NewResource (policyContext v))) [''spec'']),
        Some (lookupPath (Object (NewResource (policyContext v))) [''metadata'']), None)"
  by (simp add: getSpec_def Let_def)

lemma getSpec_other_kind:
  "GetKind (NewResource (policyContext v)) \<notin>
     {''DaemonSet'', ''Deployment'', ''Job'', ''StatefulSet'', ''ReplicaSet'',
      ''ReplicationController'', ''CronJob'', ''Pod''}
   \<Longrightarrow> getSpec ext v = (None, None, None)"
  by (simp add: getSpec_def Let_def)

lemma validatePodSecurity_other_kind:
  "GetKind (NewResource (policyContext v)) \<notin>
     {''DaemonSet'', ''Deployment'', ''Job'', ''StatefulSet'', ''ReplicaSet'',
      ''ReplicationController'', ''CronJob'', ''Pod''}
   \<Longrightarrow> validatePodSecurity ext v = Inl NilPointerDereference"
  by (simp add: validatePodSecurity_def getSpec_other_kind)

text \<open>
  Claim C2. The claim says that a pod-security rule on a resource of any other kind
  answers with status Error. On a Service the code returns no response: \<open>getSpec\<close>
  gives \<open>(nil, nil, nil)\<close> and the evaluation panics on the \<open>nil\<close> pod spec. On a Pod
  the spec is read from \<open>spec\<close>.
\<close>

theorem podSecurity_unsupported_kind_panics:
  "GetKind (NewResource (policyContext (podSecurityValidator serviceResource))) = ''Service''
   \<and> \<not> isDeleteRequest (policyContext (podSecurityValidator serviceResource))
   \<and> getSpec exampleExternals (podSecurityValidator serviceResource) = (None, None, None)
   \<and> validatePodSecurity exampleExternals (podSecurityValidator serviceResource)
       = Inl NilPointerDereference
   \<and> validate exampleExternals (podSecurityValidator serviceResource) []
       = Inl NilPointerDereference
   \<and> Validate exampleExternals
         (exampleContext (examplePolicy ApplyAll [podSecurityRule]) serviceResource) []
       = Inl NilPointerDereference
   \<and> getSpec exampleExternals (podSecurityValidator podResource)
       = (Some (JObject [(''hostNetwork'', JBool False)]),
          Some (JObject [(''name'', JString ''web'')]), None)"
  by code_simp

section \<open>Single patterns: the status of a pattern error\<close>

text \<open>
  Whenever \<open>buildErrorMessage\<close> returns, a single pattern maps a match to Pass, a
  skip error to Skip, an error with an empty path to Error and an error with a path to
  Fail. \<open>buildErrorMessage\<close> panics when the rule's message substitutes to a value
  that is not a string.
\<close>

lemma buildErrorMessage_panics:
  "ValidationMessage (RuleValidation (rule v)) \<noteq> []
   \<Longrightarrow> SubstituteAll ext j (JString (ValidationMessage (RuleValidation (rule v)))) = Inr d
   \<Longrightarrow> \<forall>s. d \<noteq> JString s
   \<Longrightarrow> buildErrorMessage ext v j e path = Inl TypeAssertionFailed"
  by (cases d) (simp_all add: buildErrorMessage_def)

lemma buildErrorMessage_returns:
  "ValidationMessage (RuleValidation (rule v)) = []
     \<or> (\<exists>x. SubstituteAll ext j (JString (ValidationMessage (RuleValidation (rule v)))) = Inl x)
     \<or> (\<exists>s. SubstituteAll ext j (JString (ValidationMessage (RuleValidation (rule v))))
           = Inr (JString s))
   \<Longrightarrow> \<exists>msg. buildErrorMessage ext v j e path = Inr msg"
  by (auto simp: buildErrorMessage_def Let_def)

lemma validatePatterns_pattern_status:
  assumes "pattern v \<noteq> JNull"
  shows
    "(MatchPattern ext (Object resource) (pattern v) = None \<longrightarrow>
        validatePatterns ext v j resource =
          Inr (ruleResponse (rule v) Validation
                 (''validation rule '' @ quote @ RuleName (rule v) @ quote @ '' passed.'')
                 RuleStatusPass))
     \<and> (MatchPattern ext (Object resource) (pattern v) = Some (PatternError e path True) \<longrightarrow>
        validatePatterns ext v j resource =
          Inr (ruleResponse (rule v) Validation e RuleStatusSkip))
     \<and> (MatchPattern ext (Object resource) (pattern v) = Some (PatternError e [] False)
          \<and> buildErrorMessage ext v j e [] = Inr msg \<longrightarrow>
        validatePatterns ext v j resource =
          Inr (ruleResponse (rule v) Validation msg RuleStatusError))
     \<and> (MatchPattern ext (Object resource) (pattern v) = Some (PatternError e path False)
          \<and> path \<noteq> [] \<and> buildErrorMessage ext v j e path = Inr msg \<longrightarrow>
        validatePatterns ext v j resource =
          Inr (ruleResponse (rule v) Validation msg RuleStatusFail))
     \<and> (MatchPattern ext (Object resource) (pattern v) = Some (PatternError e path False)
          \<and> buildErrorMessage ext v j e path = Inl p \<longrightarrow>
        validatePatterns ext v j resource = Inl p)"
  using assms by (simp add: validatePatterns_def)

text \<open>
  Claim C5. The claim says that a pattern error with a non-empty path yields status
  Fail and one with an empty path status Error. For a rule whose message is the
  template \<open>{{replicas}}\<close>, which substitutes to a number, the code returns no
  response on either error: the unchecked type assertion of \<open>buildErrorMessage\<close>
  panics. With a plain message the same rule fails with status Fail, and the deny path
  (\<open>getDenyMessage\<close>) handles the same template without a panic.
\<close>

theorem pattern_error_message_panics:
  "SubstituteAll exampleExternals [] (JString ''{{replicas}}'') = Inr (JNumber 3)
   \<and> MatchPattern exampleExternals (Some podResource) (JString ''fail'')
       = Some (PatternError ''mismatch'' ''/verdict'' False)
   \<and> validatePatterns exampleExternals (patternValidator ''{{replicas}}'' (JString ''fail''))
         [] \<lparr>Object = Some podResource\<rparr>
       = Inl TypeAssertionFailed
   \<and> validate exampleExternals (patternValidator ''{{replicas}}'' (JString ''fail'')) []
       = Inl TypeAssertionFailed
   \<and> MatchPattern exampleExternals (Some podResource) (JString ''error'')
       = Some (PatternError ''bad pattern'' [] False)
   \<and> validate exampleExternals (patternValidator ''{{replicas}}'' (JString ''error'')) []
       = Inl TypeAssertionFailed
   \<and> validate exampleExternals (patternValidator ''replicas'' (JString ''fail'')) []
       = Inr (Some (ruleResponse (patternRule ''r1'' ''replicas'' (JString ''fail'')) Validation
                      ''validation error: replicas. rule r1 failed at path /verdict''
                      RuleStatusFail), [])
   \<and> validate exampleExternals (denyValidator ''{{replicas}}'') []
       = Inr (Some (ruleResponse (rule (denyValidator ''{{replicas}}'')) Validation
                      (''the produced message didn'' @ quote
                       @ ''t resolve to a string, check your policy definition.'')
                      RuleStatusFail), [])"
  by code_simp

section \<open>anyPattern\<close>

lemma anyPatternLoop_no_match:
  "\<forall>q \<in> set ps. MatchPattern ext obj q \<noteq> None
   \<Longrightarrow> anyPatternLoop ext v obj idx ps failedErrs skippedErrs =
       Inr (failedErrs @ failedTexts ext (RuleName (rule v)) obj idx ps,
            skippedErrs @ skippedTexts ext (RuleName (rule v)) obj idx ps)"
proof (induction ps arbitrary: idx failedErrs skippedErrs)
  case Nil
  show ?case by simp
next
  case (Cons p ps)
  then obtain me where me: "MatchPattern ext obj p = Some me" by auto
  from Cons.prems have rest: "\<forall>q \<in> set ps. MatchPattern ext obj q \<noteq> None" by simp
  show ?case
  proof (cases me)
    case (PatternError e path skip)
    with me show ?thesis by (simp add: Cons.IH [OF rest])
  next
    case (OtherError e)
    with me show ?thesis by (simp add: Cons.IH [OF rest])
  qed
qed

lemma anyPatternLoop_first_match:
  "\<forall>q \<in> set pre. MatchPattern ext obj q \<noteq> None \<Longrightarrow> MatchPattern ext obj p = None
   \<Longrightarrow> anyPatternLoop ext v obj idx (pre @ p # post) failedErrs skippedErrs
       = Inl (idx + length pre)"
proof (induction pre arbitrary: idx failedErrs skippedErrs)
  case Nil
  then show ?case by simp
next
  case (Cons a pre)
  then obtain me where me: "MatchPattern ext obj a = Some me" by auto
  from Cons.prems have rest: "\<forall>q \<in> set pre. MatchPattern ext obj q \<noteq> None" by simp
  show ?case
  proof (cases me)
    case (PatternError e path skip)
    with me show ?thesis by (simp add: Cons.IH [OF rest Cons.prems(2)])
  next
    case (OtherError e)
    with me show ?thesis by (simp add: Cons.IH [OF rest Cons.prems(2)])
  qed
qed

lemma failedTexts_all_skipped:
  "\<forall>q \<in> set ps. \<exists>e path. MatchPattern ext obj q = Some (PatternError e path True)
   \<Longrightarrow> failedTexts ext name obj idx ps = []"
  by (induction ps arbitrary: idx) auto

lemma skippedTexts_all_skipped:
  "ps \<noteq> [] \<Longrightarrow> \<forall>q \<in> set ps. \<exists>e path. MatchPattern ext obj q = Some (PatternError e path True)
   \<Longrightarrow> skippedTexts ext name obj idx ps \<noteq> []"
  by (cases ps) auto

lemma failedTexts_some_failed:
  "\<exists>q \<in> set ps. \<exists>e path. MatchPattern ext obj q = Some (PatternError e path False)
   \<Longrightarrow> failedTexts ext name obj idx ps \<noteq> []"
  by (induction ps arbitrary: idx) auto

text \<open>
  Claim C4, as amended. For every anyPattern rule and resource, with \<open>entries\<close> the
  deserialised list of patterns: if some entry matches, the response is Pass and its
  message names the index of the first matching entry; if there is at least one entry
  and every entry yields a skip error, the response is Skip; if no entry matches and
  at least one entry fails, the response is Fail and its message is built by
  \<open>buildAnyPatternErrorMessage\<close> from the error texts of the failing entries.
\<close>

theorem anyPattern_outcome:
  assumes "pattern v = JNull" and "anyPattern v \<noteq> JNull"
    and "deserializeAnyPattern (anyPattern v) = Inr entries"
  shows
    "(entries = pre @ p # post
        \<and> (\<forall>q \<in> set pre. MatchPattern ext (Object resource) q \<noteq> None)
        \<and> MatchPattern ext (Object resource) p = None \<longrightarrow>
      validatePatterns ext v j resource =
        Inr (ruleResponse (rule v) Validation
               (''validation rule '' @ quote @ RuleName (rule v) @ quote
                @ '' anyPattern['' @ decimal (length pre) @ ''] passed.'')
               RuleStatusPass))
     \<and> (entries \<noteq> []
        \<and> (\<forall>q \<in> set entries.
              \<exists>e path. MatchPattern ext (Object resource) q = Some (PatternError e path True))
        \<longrightarrow>
      validatePatterns ext v j resource =
        Inr (ruleResponse (rule v) Validation
               (Join (skippedTexts ext (RuleName (rule v)) (Object resource) 0 entries) '' '')
               RuleStatusSkip))
     \<and> ((\<forall>q \<in> set entries. MatchPattern ext (Object resource) q \<noteq> None)
        \<and> (\<exists>q \<in> set entries.
              \<exists>e path. MatchPattern ext (Object resource) q = Some (PatternError e path False))
        \<longrightarrow>
      failedTexts ext (RuleName (rule v)) (Object resource) 0 entries \<noteq> []
      \<and> validatePatterns ext v j resource =
        Inr (ruleResponse (rule v) Validation
               (buildAnyPatternErrorMessage (rule v)
                  (failedTexts ext (RuleName (rule v)) (Object resource) 0 entries))
               RuleStatusFail))"
proof (intro conjI impI)
  assume a: "entries = pre @ p # post
        \<and> (\<forall>q \<in> set pre. MatchPattern ext (Object resource) q \<noteq> None)
        \<and> MatchPattern ext (Object resource) p = None"
  then have "anyPatternLoop ext v (Object resource) 0 entries [] [] = Inl (length pre)"
    using anyPatternLoop_first_match [of pre ext "Object resource" p v 0 post "[]" "[]"]
    by simp
  with assms show "validatePatterns ext v j resource =
        Inr (ruleResponse (rule v) Validation
               (''validation rule '' @ quote @ RuleName (rule v) @ quote
                @ '' anyPattern['' @ decimal (length pre) @ ''] passed.'')
               RuleStatusPass)"
    by (simp add: validatePatterns_def)
next
  assume b: "entries \<noteq> []
        \<and> (\<forall>q \<in> set entries.
              \<exists>e path. MatchPattern ext (Object resource) q = Some (PatternError e path True))"
  then have nomatch: "\<forall>q \<in> set entries. MatchPattern ext (Object resource) q \<noteq> None"
    by fastforce
  have loop: "anyPatternLoop ext v (Object resource) 0 entries [] [] =
      Inr ([], skippedTexts ext (RuleName (rule v)) (Object resource) 0 entries)"
    using anyPatternLoop_no_match [OF nomatch, of v 0 "[]" "[]"] b
    by (simp add: failedTexts_all_skipped)
  have "skippedTexts ext (RuleName (rule v)) (Object resource) 0 entries \<noteq> []"
    using b by (simp add: skippedTexts_all_skipped)
  with assms loop show "validatePatterns ext v j resource =
        Inr (ruleResponse (rule v) Validation
               (Join (skippedTexts ext (RuleName (rule v)) (Object resource) 0 entries) '' '')
               RuleStatusSkip)"
    by (simp add: validatePatterns_def)
next
  assume c: "(\<forall>q \<in> set entries. MatchPattern ext (Object resource) q \<noteq> None)
        \<and> (\<exists>q \<in> set entries.
              \<exists>e path. MatchPattern ext (Object resource) q = Some (PatternError e path False))"
  then show nonempty: "failedTexts ext (RuleName (rule v)) (Object resource) 0 entries \<noteq> []"
    by (simp add: failedTexts_some_failed)
  have loop: "anyPatternLoop ext v (Object resource) 0 entries [] [] =
      Inr (failedTexts ext (RuleName (rule v)) (Object resource) 0 entries,
           skippedTexts ext (RuleName (rule v)) (Object resource) 0 entries)"
    using anyPatternLoop_no_match [of entries ext "Object resource" v 0 "[]" "[]"] c
    by simp
  with assms nonempty show "validatePatterns ext v j resource =
        Inr (ruleResponse (rule v) Validation
               (buildAnyPatternErrorMessage (rule v)
                  (failedTexts ext (RuleName (rule v)) (Object resource) 0 entries))
               RuleStatusFail)"
    by (simp add: validatePatterns_def)
qed

text \<open>
  Claim C4 as stated does not hold for an empty \<open>anyPattern\<close> list: every entry (there
  is none) yields a skip error and none yields a failure, but the response is Pass
  with the rule's message, not Skip, since the code asks for at least one skip error.
\<close>

theorem anyPattern_outcome_counterexample:
  "pattern (anyPatternValidator ''msg'' []) = JNull
   \<and> anyPattern (anyPatternValidator ''msg'' []) = JArray []
   \<and> deserializeAnyPattern (anyPattern (anyPatternValidator ''msg'' [])) = Inr []
   \<and> validatePatterns exampleExternals (anyPatternValidator ''msg'' []) []
         \<lparr>Object = Some podResource\<rparr>
       = Inr (ruleResponse (rule (anyPatternValidator ''msg'' [])) Validation ''msg''
                RuleStatusPass)
   \<and> validate exampleExternals (anyPatternValidator ''msg'' []) []
       = Inr (Some (ruleResponse (rule (anyPatternValidator ''msg'' [])) Validation ''msg''
                      RuleStatusPass), [])"
  by code_simp

text \<open>Lists whose third entry matches, whose entries all skip, and with two failures.\<close>

theorem anyPattern_outcome_witness:
  "validatePatterns exampleExternals
       (anyPatternValidator [] ([JString ''skip'', JString ''fail''] @ JString ''pass'' # []))
       [] \<lparr>Object = Some podResource\<rparr>
     = Inr (ruleResponse
              (rule (anyPatternValidator []
                       ([JString ''skip'', JString ''fail''] @ JString ''pass'' # [])))
              Validation
              (''validation rule '' @ quote @ ''any'' @ quote @ '' anyPattern[2] passed.'')
              RuleStatusPass)
   \<and> validatePatterns exampleExternals
       (anyPatternValidator [] [JString ''skip'', JString ''skip''])
       [] \<lparr>Object = Some podResource\<rparr>
     = Inr (ruleResponse (rule (anyPatternValidator [] [JString ''skip'', JString ''skip'']))
              Validation
              ''rule any[0] skipped: conditional anchor rule any[1] skipped: conditional anchor''
              RuleStatusSkip)
   \<and> validatePatterns exampleExternals
       (anyPatternValidator [] [JString ''skip'', JString ''fail'', JString ''error''])
       [] \<lparr>Object = Some podResource\<rparr>
     = Inr (ruleResponse
              (rule (anyPatternValidator [] [JString ''skip'', JString ''fail'', JString ''error'']))
              Validation
              ''validation error: rule any[1] failed at path /verdict rule any[2] failed: bad pattern''
              RuleStatusFail)"
proof -
  let ?res = "\<lparr>Object = Some podResource\<rparr>"
  let ?A = "[JString ''skip'', JString ''fail''] @ JString ''pass'' # []"
  let ?B = "[JString ''skip'', JString ''skip'']"
  let ?C = "[JString ''skip'', JString ''fail'', JString ''error'']"
  have shape: "pattern (anyPatternValidator [] es) = JNull"
    "anyPattern (anyPatternValidator [] es) \<noteq> JNull"
    "deserializeAnyPattern (anyPattern (anyPatternValidator [] es)) = Inr es" for es
    by (simp_all add: anyPatternValidator_def newValidator_def deserializeAnyPattern_def)
  have name: "RuleName (rule (anyPatternValidator [] es)) = ''any''" for es
    by (simp add: anyPatternValidator_def newValidator_def)
  have m: "MatchPattern exampleExternals (Object ?res) (JString ''skip'')
             = Some (PatternError ''conditional anchor'' ''/verdict'' True)"
    "MatchPattern exampleExternals (Object ?res) (JString ''fail'')
             = Some (PatternError ''mismatch'' ''/verdict'' False)"
    "MatchPattern exampleExternals (Object ?res) (JString ''error'')
             = Some (PatternError ''bad pattern'' [] False)"
    "MatchPattern exampleExternals (Object ?res) (JString ''pass'') = None"
    by (simp_all add: exampleExternals_def exampleMatch_def exampleVerdict_def)
  have pa: "?A = [JString ''skip'', JString ''fail''] @ JString ''pass'' # []
      \<and> (\<forall>q \<in> set [JString ''skip'', JString ''fail''].
            MatchPattern exampleExternals (Object ?res) q \<noteq> None)
      \<and> MatchPattern exampleExternals (Object ?res) (JString ''pass'') = None"
    using m by simp
  have pb: "?B \<noteq> []
      \<and> (\<forall>q \<in> set ?B. \<exists>e path.
            MatchPattern exampleExternals (Object ?res) q = Some (PatternError e path True))"
    using m by simp
  have pc: "(\<forall>q \<in> set ?C. MatchPattern exampleExternals (Object ?res) q \<noteq> None)
      \<and> (\<exists>q \<in> set ?C. \<exists>e path.
            MatchPattern exampleExternals (Object ?res) q = Some (PatternError e path False))"
    using m by simp
  have da: "decimal (length [JString ''skip'', JString ''fail'']) = ''2''"
    by code_simp
  have tb: "Join (skippedTexts exampleExternals
                    (RuleName (rule (anyPatternValidator [] ?B))) (Object ?res) 0 ?B) '' ''
      = ''rule any[0] skipped: conditional anchor rule any[1] skipped: conditional anchor''"
    by code_simp
  have tc: "buildAnyPatternErrorMessage (rule (anyPatternValidator [] ?C))
              (failedTexts exampleExternals
                 (RuleName (rule (anyPatternValidator [] ?C))) (Object ?res) 0 ?C)
      = ''validation error: rule any[1] failed at path /verdict rule any[2] failed: bad pattern''"
    by code_simp
  have A: "validatePatterns exampleExternals (anyPatternValidator [] ?A) [] ?res
     = Inr (ruleResponse (rule (anyPatternValidator [] ?A)) Validation
              (''validation rule '' @ quote @ ''any'' @ quote @ '' anyPattern[2] passed.'')
              RuleStatusPass)"
    using anyPattern_outcome
        [OF shape [of ?A], where ext = exampleExternals and resource = ?res,
         THEN conjunct1, THEN mp, OF pa]
    by (simp only: da name) simp
  have B: "validatePatterns exampleExternals (anyPatternValidator [] ?B) [] ?res
     = Inr (ruleResponse (rule (anyPatternValidator [] ?B)) Validation
              ''rule any[0] skipped: conditional anchor rule any[1] skipped: conditional anchor''
              RuleStatusSkip)"
    using anyPattern_outcome
        [OF shape [of ?B], where ext = exampleExternals and resource = ?res,
         THEN conjunct2, THEN conjunct1, THEN mp, OF pb]
    by (simp only: tb)
  have C: "validatePatterns exampleExternals (anyPatternValidator [] ?C) [] ?res
     = Inr (ruleResponse (rule (anyPatternValidator [] ?C)) Validation
              ''validation error: rule any[1] failed at path /verdict rule any[2] failed: bad pattern''
              RuleStatusFail)"
    using anyPattern_outcome
        [OF shape [of ?C], where ext = exampleExternals and resource = ?res,
         THEN conjunct2, THEN conjunct2, THEN mp, OF pc, THEN conjunct2]
    by (simp only: tc)
  from A B C show ?thesis by (intro conjI)
qed

end
